theory Spec2Isabelle
  imports Complex_Main
begin

section \<open>JavaScript numbers\<close>

text \<open>
  A JavaScript number is a finite value, one of the two infinities, or \<open>NaN\<close>.
  Finite values are exact reals here: rounding to 64 bits, overflow of a finite
  operation and the sign of zero are not part of the model (a zero divisor is
  read as \<open>+0\<close>; no division of the ranking code can meet one).
\<close>

datatype jsnum = NaN | NInf | PInf | Num real

fun jsneg :: "jsnum \<Rightarrow> jsnum" where
  "jsneg NaN = NaN"
| "jsneg NInf = PInf"
| "jsneg PInf = NInf"
| "jsneg (Num x) = Num (- x)"

fun jsadd :: "jsnum \<Rightarrow> jsnum \<Rightarrow> jsnum" where
  "jsadd (Num x) (Num y) = Num (x + y)"
| "jsadd NaN b = NaN"
| "jsadd a NaN = NaN"
| "jsadd PInf NInf = NaN"
| "jsadd NInf PInf = NaN"
| "jsadd PInf b = PInf"
| "jsadd a PInf = PInf"
| "jsadd NInf b = NInf"
| "jsadd a NInf = NInf"

definition jssub :: "jsnum \<Rightarrow> jsnum \<Rightarrow> jsnum" where
  "jssub a b = jsadd a (jsneg b)"

text \<open>The comparisons \<open><\<close>, \<open><=\<close>, \<open>>\<close>, \<open>>=\<close>: false as soon as one side is \<open>NaN\<close>.\<close>

fun jslt :: "jsnum \<Rightarrow> jsnum \<Rightarrow> bool" where
  "jslt (Num x) (Num y) = (x < y)"
| "jslt NaN b = False"
| "jslt a NaN = False"
| "jslt a NInf = False"
| "jslt NInf b = True"
| "jslt PInf b = False"
| "jslt a PInf = True"

fun jseq :: "jsnum \<Rightarrow> jsnum \<Rightarrow> bool" where
  "jseq NaN b = False"
| "jseq a NaN = False"
| "jseq a b = (a = b)"

definition jsle :: "jsnum \<Rightarrow> jsnum \<Rightarrow> bool" where
  "jsle a b = (jslt a b \<or> jseq a b)"

definition jsgt :: "jsnum \<Rightarrow> jsnum \<Rightarrow> bool" where
  "jsgt a b = jslt b a"

definition jsge :: "jsnum \<Rightarrow> jsnum \<Rightarrow> bool" where
  "jsge a b = jsle b a"

fun jsmul :: "jsnum \<Rightarrow> jsnum \<Rightarrow> jsnum" where
  "jsmul (Num x) (Num y) = Num (x * y)"
| "jsmul NaN b = NaN"
| "jsmul a NaN = NaN"
| "jsmul PInf b = (if jslt (Num 0) b then PInf else if jslt b (Num 0) then NInf else NaN)"
| "jsmul NInf b = (if jslt (Num 0) b then NInf else if jslt b (Num 0) then PInf else NaN)"
| "jsmul a PInf = (if jslt (Num 0) a then PInf else if jslt a (Num 0) then NInf else NaN)"
| "jsmul a NInf = (if jslt (Num 0) a then NInf else if jslt a (Num 0) then PInf else NaN)"

fun jsdiv :: "jsnum \<Rightarrow> jsnum \<Rightarrow> jsnum" where
  "jsdiv (Num x) (Num y) =
     (if y = 0 then (if x = 0 then NaN else if 0 < x then PInf else NInf) else Num (x / y))"
| "jsdiv NaN b = NaN"
| "jsdiv a NaN = NaN"
| "jsdiv (Num x) b = Num 0"
| "jsdiv a PInf = NaN"
| "jsdiv a NInf = NaN"
| "jsdiv PInf (Num y) = (if y < 0 then NInf else PInf)"
| "jsdiv NInf (Num y) = (if y < 0 then PInf else NInf)"

text \<open>\<open>Math.min\<close> and \<open>Math.max\<close> of two arguments: \<open>NaN\<close> if either is.\<close>

fun Math_min :: "jsnum \<Rightarrow> jsnum \<Rightarrow> jsnum" where
  "Math_min NaN b = NaN"
| "Math_min a NaN = NaN"
| "Math_min a b = (if jslt b a then b else a)"

fun Math_max :: "jsnum \<Rightarrow> jsnum \<Rightarrow> jsnum" where
  "Math_max NaN b = NaN"
| "Math_max a NaN = NaN"
| "Math_max a b = (if jslt a b then b else a)"

fun Math_exp :: "jsnum \<Rightarrow> jsnum" where
  "Math_exp NaN = NaN"
| "Math_exp NInf = Num 0"
| "Math_exp PInf = PInf"
| "Math_exp (Num x) = Num (exp x)"

fun Math_log10 :: "jsnum \<Rightarrow> jsnum" where
  "Math_log10 NaN = NaN"
| "Math_log10 NInf = NaN"
| "Math_log10 PInf = PInf"
| "Math_log10 (Num x) = (if x < 0 then NaN else if x = 0 then NInf else Num (log 10 x))"

text \<open>
  \<open>v || d\<close> on an optional number: \<open>undefined\<close>, \<open>NaN\<close> and \<open>0\<close> are falsy
  and give \<open>d\<close>; every other number is kept.
\<close>

fun orElse :: "jsnum option \<Rightarrow> jsnum \<Rightarrow> jsnum" where
  "orElse None d = d"
| "orElse (Some NaN) d = d"
| "orElse (Some (Num x)) d = (if x = 0 then d else Num x)"
| "orElse (Some v) d = v"

section \<open>The data model of the trend ranker\<close>

record TrendScore =
  recency :: jsnum
  popularity :: jsnum
  engagement :: jsnum
  overall :: jsnum

record Metrics =
  likes :: "jsnum option"
  shares :: "jsnum option"
  comments :: "jsnum option"
  views :: "jsnum option"
  retweets :: "jsnum option"

datatype SourceType = SrcX | SrcYoutube | SrcNews | SrcGlobal

datatype Category = Technology | Business | Social | Entertainment | Science | General

fun category_string :: "Category \<Rightarrow> string" where
  "category_string Technology = ''technology''"
| "category_string Business = ''business''"
| "category_string Social = ''social''"
| "category_string Entertainment = ''entertainment''"
| "category_string Science = ''science''"
| "category_string General = ''general''"

record RankedTrend =
  trend_id :: string
  title :: string
  content :: string
  source :: string
  sourceType :: SourceType
  url :: string
  timestamp :: string
  metrics :: Metrics
  score :: TrendScore
  tags :: "string list"
  category :: Category

text \<open>\<open>Partial<RankedTrend>\<close>: every field may be \<open>undefined\<close>.\<close>

record Partial_RankedTrend =
  trend_id_opt :: "string option"
  title_opt :: "string option"
  content_opt :: "string option"
  source_opt :: "string option"
  sourceType_opt :: "SourceType option"
  url_opt :: "string option"
  timestamp_opt :: "string option"
  metrics_opt :: "Metrics option"
  score_opt :: "TrendScore option"
  tags_opt :: "string list option"
  category_opt :: "Category option"

text \<open>A full record passed where a partial one is expected.\<close>

definition as_partial :: "RankedTrend \<Rightarrow> Partial_RankedTrend" where
  "as_partial t =
     \<lparr> trend_id_opt = Some (trend_id t), title_opt = Some (title t),
       content_opt = Some (content t), source_opt = Some (source t),
       sourceType_opt = Some (sourceType t), url_opt = Some (url t),
       timestamp_opt = Some (timestamp t), metrics_opt = Some (metrics t),
       score_opt = Some (score t), tags_opt = Some (tags t),
       category_opt = Some (category t) \<rparr>"

definition no_metrics :: Metrics where
  "no_metrics = \<lparr> likes = None, shares = None, comments = None, views = None, retweets = None \<rparr>"

text \<open>\<open>trend.metrics || {}\<close>.\<close>

fun metrics_or_empty :: "Metrics option \<Rightarrow> Metrics" where
  "metrics_or_empty None = no_metrics"
| "metrics_or_empty (Some m) = m"

section \<open>Dates\<close>

text \<open>
  A \<open>Date\<close> is its time value: milliseconds since the epoch, or nothing for an
  invalid date. The clock reading \<open>now\<close> and the string parser of the \<open>Date\<close>
  constructor belong to the platform, so the functions below take both as
  parameters: \<open>Date_parse s = None\<close> says that \<open>s\<close> does not denote an instant.
\<close>

type_synonym Date = "int option"

fun getTime :: "Date \<Rightarrow> jsnum" where
  "getTime None = NaN"
| "getTime (Some ms) = Num (real_of_int ms)"

text \<open>\<open>new Date(ts || now)\<close>: an absent or empty string is falsy.\<close>

fun new_Date_or_now :: "(string \<Rightarrow> Date) \<Rightarrow> int \<Rightarrow> string option \<Rightarrow> Date" where
  "new_Date_or_now Date_parse now None = Some now"
| "new_Date_or_now Date_parse now (Some s) = (if s = [] then Some now else Date_parse s)"

section \<open>calculateTrendScore\<close>

definition ageInHours_of :: "int \<Rightarrow> Date \<Rightarrow> jsnum" where
  "ageInHours_of now trendTime =
     jsdiv (jssub (getTime (Some now)) (getTime trendTime)) (Num (1000 * 60 * 60))"

definition calculateTrendScore ::
  "(string \<Rightarrow> Date) \<Rightarrow> int \<Rightarrow> Partial_RankedTrend \<Rightarrow> TrendScore" where
  "calculateTrendScore Date_parse now trend =
     (let trendTime = new_Date_or_now Date_parse now (timestamp_opt trend);
          ageInHours = ageInHours_of now trendTime;
          recency' = Math_max (Num 0) (Math_min (Num 1)
                       (Math_exp (jsdiv (jsneg ageInHours) (Num 24))));
          m = metrics_or_empty (metrics_opt trend);
          totalEngagement =
            jsadd (jsadd (jsadd (jsadd (orElse (likes m) (Num 0))
                                       (orElse (shares m) (Num 0)))
                                (orElse (comments m) (Num 0)))
                         (orElse (retweets m) (Num 0)))
                  (jsdiv (orElse (views m) (Num 0)) (Num 100));
          popularity' = Math_min (Num 1)
                          (jsdiv (Math_log10 (jsadd totalEngagement (Num 1))) (Num 6));
          activeEngagement =
            jsadd (jsadd (orElse (comments m) (Num 0)) (orElse (shares m) (Num 0)))
                  (orElse (retweets m) (Num 0));
          totalImpressions = Math_max (orElse (views m) (Num 0)) (orElse (likes m) (Num 0));
          engagement' =
            (if jsgt totalImpressions (Num 0)
             then Math_min (Num 1) (jsmul (jsdiv activeEngagement totalImpressions) (Num 100))
             else Num 0);
          overall' = jsadd (jsadd (jsmul recency' (Num (4 / 10))) (jsmul popularity' (Num (4 / 10))))
                           (jsmul engagement' (Num (2 / 10)))
      in \<lparr> recency = recency', popularity = popularity',
           engagement = engagement', overall = overall' \<rparr>)"

section \<open>Arrays\<close>

text \<open>
  \<open>Array.prototype.sort\<close> with a comparison function. The comparison's result goes
  through \<open>SortCompare\<close> (a \<open>NaN\<close> counts as \<open>0\<close>), an element moves behind
  another only on a positive result, and the sort is stable: a stable insertion sort.
  (For a comparison function that is not consistent the language leaves the order
  to the implementation; the ranker's comparison is consistent on what it sorts.)
\<close>

definition SortCompare :: "('a \<Rightarrow> 'a \<Rightarrow> jsnum) \<Rightarrow> 'a \<Rightarrow> 'a \<Rightarrow> jsnum" where
  "SortCompare comparefn x y = (case comparefn x y of NaN \<Rightarrow> Num 0 | v \<Rightarrow> v)"

fun insert_sorted :: "('a \<Rightarrow> 'a \<Rightarrow> jsnum) \<Rightarrow> 'a \<Rightarrow> 'a list \<Rightarrow> 'a list" where
  "insert_sorted comparefn x [] = [x]"
| "insert_sorted comparefn x (y # ys) =
     (if jsgt (SortCompare comparefn x y) (Num 0)
      then y # insert_sorted comparefn x ys
      else x # y # ys)"

definition Array_sort :: "('a \<Rightarrow> 'a \<Rightarrow> jsnum) \<Rightarrow> 'a list \<Rightarrow> 'a list" where
  "Array_sort comparefn xs = foldr (insert_sorted comparefn) xs []"

text \<open>
  \<open>xs.slice(0, end)\<close>: \<open>end\<close> is truncated to an integer (\<open>NaN\<close> to \<open>0\<close>); a
  negative \<open>end\<close> counts from the end of the array.
\<close>

definition ToIntegerOrInfinity_fin :: "real \<Rightarrow> int" where
  "ToIntegerOrInfinity_fin x = (if 0 \<le> x then \<lfloor>x\<rfloor> else \<lceil>x\<rceil>)"

fun Array_slice0 :: "jsnum \<Rightarrow> 'a list \<Rightarrow> 'a list" where
  "Array_slice0 NaN xs = []"
| "Array_slice0 NInf xs = []"
| "Array_slice0 PInf xs = xs"
| "Array_slice0 (Num e) xs =
     (let len = int (length xs); relativeEnd = ToIntegerOrInfinity_fin e;
          final = (if relativeEnd < 0 then max (len + relativeEnd) 0 else min relativeEnd len)
      in take (nat final) xs)"

section \<open>combineAndRankTrends\<close>

record Options =
  maxResults :: "jsnum option"
  minScore :: "jsnum option"
  categories :: "string list option"
  timeWindow :: "jsnum option"

definition no_options :: Options where
  "no_options = \<lparr> maxResults = None, minScore = None, categories = None, timeWindow = None \<rparr>"

text \<open>A destructuring default applies exactly when the property is \<open>undefined\<close>.\<close>

fun withDefault :: "'a option \<Rightarrow> 'a \<Rightarrow> 'a" where
  "withDefault None d = d"
| "withDefault (Some v) d = v"

text \<open>The first filter: \<open>new Date(trend.timestamp)\<close>, its age in hours, \<open>age <= timeWindow\<close>.\<close>

definition within_timeWindow :: "(string \<Rightarrow> Date) \<Rightarrow> int \<Rightarrow> jsnum \<Rightarrow> RankedTrend \<Rightarrow> bool" where
  "within_timeWindow Date_parse now timeWindow' trend =
     (let trendTime = Date_parse (timestamp trend);
          ageInHours = ageInHours_of now trendTime
      in jsle ageInHours timeWindow')"

definition in_categories :: "string list \<Rightarrow> RankedTrend \<Rightarrow> bool" where
  "in_categories categories' trend = (category_string (category trend) \<in> set categories')"

definition score_at_least :: "jsnum \<Rightarrow> RankedTrend \<Rightarrow> bool" where
  "score_at_least minScore' trend = jsge (overall (score trend)) minScore'"

definition by_overall_desc :: "RankedTrend \<Rightarrow> RankedTrend \<Rightarrow> jsnum" where
  "by_overall_desc a b = jssub (overall (score b)) (overall (score a))"

definition combineAndRankTrends ::
  "(string \<Rightarrow> Date) \<Rightarrow> int \<Rightarrow> RankedTrend list \<Rightarrow> RankedTrend list \<Rightarrow> Options option
     \<Rightarrow> RankedTrend list" where
  "combineAndRankTrends Date_parse now userTrends globalTrends options =
     (let opts = withDefault options no_options;
          maxResults' = withDefault (maxResults opts) (Num 50);
          minScore' = withDefault (minScore opts) (Num (1 / 10));
          categories' = withDefault (categories opts) [];
          timeWindow' = withDefault (timeWindow opts) (Num 24);
          allTrends = userTrends @ globalTrends;
          filtered = filter (within_timeWindow Date_parse now timeWindow') allTrends;
          categoryFiltered =
            (if length categories' > 0 then filter (in_categories categories') filtered
             else filtered);
          scoreFiltered = filter (score_at_least minScore') categoryFiltered;
          sorted = Array_sort by_overall_desc scoreFiltered
      in Array_slice0 maxResults' sorted)"

subsection \<open>The same function over a store of arrays\<close>

text \<open>
  To see which arrays a call writes, arrays live in a store and are passed by
  reference: a reference is an index into the store, the spread, \<open>filter\<close> and
  \<open>slice\<close> allocate a new array, and \<open>sort\<close> overwrites the array it is called on.
  The function assigns to no field of a trend, so an array holds the records
  themselves. A reference handed to the function denotes an array of the store.
\<close>

type_synonym store = "RankedTrend list list"

definition alloc :: "RankedTrend list \<Rightarrow> store \<Rightarrow> nat \<times> store" where
  "alloc xs h = (length h, h @ [xs])"

definition sort_in_place :: "(RankedTrend \<Rightarrow> RankedTrend \<Rightarrow> jsnum) \<Rightarrow> nat \<Rightarrow> store \<Rightarrow> nat \<times> store" where
  "sort_in_place comparefn r h = (r, h[r := Array_sort comparefn (h ! r)])"

definition combineAndRankTrends_store ::
  "(string \<Rightarrow> Date) \<Rightarrow> int \<Rightarrow> nat \<Rightarrow> nat \<Rightarrow> Options option \<Rightarrow> store \<Rightarrow> nat \<times> store" where
  "combineAndRankTrends_store Date_parse now userTrends globalTrends options h =
     (let opts = withDefault options no_options;
          maxResults' = withDefault (maxResults opts) (Num 50);
          minScore' = withDefault (minScore opts) (Num (1 / 10));
          categories' = withDefault (categories opts) [];
          timeWindow' = withDefault (timeWindow opts) (Num 24);
          (allTrends, h1) = alloc (h ! userTrends @ h ! globalTrends) h;
          (filtered, h2) =
            alloc (filter (within_timeWindow Date_parse now timeWindow') (h1 ! allTrends)) h1;
          (categoryFiltered, h3) =
            (if length categories' > 0
             then alloc (filter (in_categories categories') (h2 ! filtered)) h2
             else (filtered, h2));
          (scoreFiltered, h4) =
            alloc (filter (score_at_least minScore') (h3 ! categoryFiltered)) h3;
          (sorted, h5) = sort_in_place by_overall_desc scoreFiltered h4
      in alloc (Array_slice0 maxResults' (h5 ! sorted)) h5)"

section \<open>Characters and strings\<close>

text \<open>
  A string is a list of code units, here the code units below 256. The classes are
  those of a regular expression without the unicode flag: \<open>\w\<close> is
  \<open>[A-Za-z0-9_]\<close>, and every code unit from 128 on is outside all of them.
\<close>

definition code :: "char \<Rightarrow> nat" where
  "code c = of_char c"

definition isDigit :: "char \<Rightarrow> bool" where
  "isDigit c = (48 \<le> code c \<and> code c \<le> 57)"

definition isUpper :: "char \<Rightarrow> bool" where
  "isUpper c = (65 \<le> code c \<and> code c \<le> 90)"

definition isLower :: "char \<Rightarrow> bool" where
  "isLower c = (97 \<le> code c \<and> code c \<le> 122)"

definition isWordChar :: "char \<Rightarrow> bool" where
  "isWordChar c = (isDigit c \<or> isUpper c \<or> isLower c \<or> c = CHR ''_'')"



text \<open>\<open>s || d\<close> on an optional string: \<open>undefined\<close> and the empty string are falsy.\<close>

fun str_or :: "string option \<Rightarrow> string \<Rightarrow> string" where
  "str_or None d = d"
| "str_or (Some s) d = (if s = [] then d else s)"

text \<open>Optional chaining \<open>obj?.field\<close>.\<close>

fun chain :: "'a option \<Rightarrow> ('a \<Rightarrow> 'b option) \<Rightarrow> 'b option" where
  "chain None field = None"
| "chain (Some obj) field = field obj"

section \<open>parseInt\<close>

text \<open>
  \<open>parseInt(string)\<close> with no radix: leading white space is dropped, then a sign,
  then \<open>0x\<close> or \<open>0X\<close> (which selects radix 16); the longest run of digits of the
  radix is the number, and an empty run gives \<open>NaN\<close>.
\<close>

definition isStrWhiteSpaceChar :: "char \<Rightarrow> bool" where
  "isStrWhiteSpaceChar c = (code c \<in> set [9, 10, 11, 12, 13, 32, 160])"

definition digitValue :: "char \<Rightarrow> nat" where
  "digitValue c =
     (if isDigit c then code c - 48
      else if isLower c then code c - 97 + 10
      else if isUpper c then code c - 65 + 10
      else 36)"

definition parseInt :: "string \<Rightarrow> jsnum" where
  "parseInt inputString =
     (let S = dropWhile isStrWhiteSpaceChar inputString;
          sign = (if take 1 S = ''-'' then - 1 else (1 :: int));
          S1 = (if take 1 S = ''+'' \<or> take 1 S = ''-'' then drop 1 S else S);
          hex = (take 2 S1 = ''0x'' \<or> take 2 S1 = ''0X'');
          R = (if hex then 16 else 10);
          S2 = (if hex then drop 2 S1 else S1);
          Z = takeWhile (\<lambda>c. digitValue c < R) S2
      in if Z = [] then NaN
         else Num (real_of_int (sign * int (foldl (\<lambda>n c. n * R + digitValue c) 0 Z))))"

section \<open>convertYouTubeToRankedTrends\<close>

record Snippet =
  sn_title :: "string option"
  sn_description :: "string option"
  channelTitle :: "string option"
  publishedAt :: "string option"
  sn_tags :: "string list option"

record Statistics =
  viewCount :: "string option"
  likeCount :: "string option"
  commentCount :: "string option"

record YouTubeVideo =
  video_id :: string
  snippet :: "Snippet option"
  statistics :: "Statistics option"

text \<open>
  The body of the \<open>map\<close> callback. \<open>toISOString\<close> is the platform's rendering of
  an instant; the two clock readings of one conversion are taken as one instant.
\<close>

definition convertYouTubeVideo ::
  "(string \<Rightarrow> Date) \<Rightarrow> (int \<Rightarrow> string) \<Rightarrow> int \<Rightarrow> YouTubeVideo \<Rightarrow> RankedTrend" where
  "convertYouTubeVideo Date_parse toISOString now video =
     (let trend =
        \<lparr> trend_id = ''yt_'' @ video_id video,
          title = str_or (chain (snippet video) sn_title) ''Untitled Video'',
          content = str_or (chain (snippet video) sn_description) [],
          source = str_or (chain (snippet video) channelTitle) ''Unknown Channel'',
          sourceType = SrcYoutube,
          url = ''https://youtube.com/watch?v='' @ video_id video,
          timestamp = str_or (chain (snippet video) publishedAt) (toISOString now),
          metrics =
            \<lparr> likes = Some (parseInt (str_or (chain (statistics video) likeCount) ''0'')),
              shares = None,
              comments = Some (parseInt (str_or (chain (statistics video) commentCount) ''0'')),
              views = Some (parseInt (str_or (chain (statistics video) viewCount) ''0'')),
              retweets = None \<rparr>,
          score = \<lparr> recency = Num 0, popularity = Num 0, engagement = Num 0, overall = Num 0 \<rparr>,
          tags = (case chain (snippet video) sn_tags of None \<Rightarrow> [] | Some ts \<Rightarrow> ts),
          category = General \<rparr>
      in trend \<lparr> score := calculateTrendScore Date_parse now (as_partial trend) \<rparr>)"

definition convertYouTubeToRankedTrends ::
  "(string \<Rightarrow> Date) \<Rightarrow> (int \<Rightarrow> string) \<Rightarrow> int \<Rightarrow> YouTubeVideo list \<Rightarrow> RankedTrend list" where
  "convertYouTubeToRankedTrends Date_parse toISOString now videos =
     map (convertYouTubeVideo Date_parse toISOString now) videos"

section \<open>extractTrendingTopics\<close>

subsection \<open>Global matching\<close>












subsection \<open>The function\<close>



text \<open>\<open>[...new Set(trends)]\<close>: the first occurrence of each string, in order.\<close>

definition uniq :: "string list \<Rightarrow> string list" where
  "uniq xs = foldl (\<lambda>seen x. if x \<in> set seen then seen else seen @ [x]) [] xs"




section \<open>Notions used to state the properties\<close>

text \<open>A metric that is absent, \<open>NaN\<close> or finite; one that moreover is not negative;
  and the count it stands for, an absent metric counting as 0.\<close>

fun finite_count :: "jsnum option \<Rightarrow> bool" where
  "finite_count (Some PInf) = False"
| "finite_count (Some NInf) = False"
| "finite_count v = True"

fun nonneg_count :: "jsnum option \<Rightarrow> bool" where
  "nonneg_count (Some (Num x)) = (0 \<le> x)"
| "nonneg_count v = finite_count v"

fun count_value :: "jsnum option \<Rightarrow> real" where
  "count_value (Some (Num x)) = x"
| "count_value v = 0"

definition finite_metrics :: "Metrics \<Rightarrow> bool" where
  "finite_metrics m =
     (finite_count (likes m) \<and> finite_count (shares m) \<and> finite_count (comments m)
      \<and> finite_count (views m) \<and> finite_count (retweets m))"

definition nonneg_metrics :: "Metrics \<Rightarrow> bool" where
  "nonneg_metrics m =
     (nonneg_count (likes m) \<and> nonneg_count (shares m) \<and> nonneg_count (comments m)
      \<and> nonneg_count (views m) \<and> nonneg_count (retweets m))"

text \<open>The formulas of the specification, over the reals.\<close>

definition totalEngagement_spec :: "Metrics \<Rightarrow> real" where
  "totalEngagement_spec m =
     count_value (likes m) + count_value (shares m) + count_value (comments m)
     + count_value (retweets m) + count_value (views m) / 100"

definition activeEngagement_spec :: "Metrics \<Rightarrow> real" where
  "activeEngagement_spec m =
     count_value (comments m) + count_value (shares m) + count_value (retweets m)"

definition totalImpressions_spec :: "Metrics \<Rightarrow> real" where
  "totalImpressions_spec m = max (count_value (views m)) (count_value (likes m))"

definition ageHours_spec :: "int \<Rightarrow> int \<Rightarrow> real" where
  "ageHours_spec now ts = real_of_int (now - ts) / 3600000"

fun in_unit_interval :: "jsnum \<Rightarrow> bool" where
  "in_unit_interval (Num x) = (0 \<le> x \<and> x \<le> 1)"
| "in_unit_interval v = False"

text \<open>Two reals that agree once rounded to three decimals.\<close>

definition approx3 :: "real \<Rightarrow> real \<Rightarrow> bool" where
  "approx3 x v = (\<bar>x - v\<bar> \<le> 5 / 10000)"

text \<open>The options in force: the given value, or the default of the specification.\<close>

definition maxResults_in_force :: "Options option \<Rightarrow> jsnum" where
  "maxResults_in_force options =
     (case options of None \<Rightarrow> Num 50
      | Some opts \<Rightarrow> (case maxResults opts of None \<Rightarrow> Num 50 | Some v \<Rightarrow> v))"

definition minScore_in_force :: "Options option \<Rightarrow> jsnum" where
  "minScore_in_force options =
     (case options of None \<Rightarrow> Num (1 / 10)
      | Some opts \<Rightarrow> (case minScore opts of None \<Rightarrow> Num (1 / 10) | Some v \<Rightarrow> v))"

definition timeWindow_in_force :: "Options option \<Rightarrow> jsnum" where
  "timeWindow_in_force options =
     (case options of None \<Rightarrow> Num 24
      | Some opts \<Rightarrow> (case timeWindow opts of None \<Rightarrow> Num 24 | Some v \<Rightarrow> v))"

definition categories_in_force :: "Options option \<Rightarrow> string list" where
  "categories_in_force options =
     (case options of None \<Rightarrow> []
      | Some opts \<Rightarrow> (case categories opts of None \<Rightarrow> [] | Some v \<Rightarrow> v))"


definition overall_desc :: "RankedTrend \<Rightarrow> RankedTrend \<Rightarrow> bool" where
  "overall_desc a b = jsge (overall (score a)) (overall (score b))"

section \<open>Sample inputs\<close>

text \<open>
  The platform's date parser at the strings of the examples below: three instants
  in the format of \<open>toISOString\<close>, and nothing for any other string of the examples.
\<close>

definition sample_now :: int where
  "sample_now = 1793534400000"

definition sample_parse :: "string \<Rightarrow> Date" where
  "sample_parse s =
     (if s = ''2026-11-01T12:00:00.000Z'' then Some 1793534400000
      else if s = ''2026-10-31T12:00:00.000Z'' then Some 1793448000000
      else if s = ''2026-10-30T12:00:00.000Z'' then Some 1793361600000
      else None)"

definition sample_metrics :: Metrics where
  "sample_metrics =
     \<lparr> likes = Some (Num 1000), shares = Some (Num 200), comments = Some (Num 50),
       views = Some (Num 500000), retweets = None \<rparr>"

definition sample_partial :: "string option \<Rightarrow> Metrics option \<Rightarrow> Partial_RankedTrend" where
  "sample_partial ts m =
     \<lparr> trend_id_opt = None, title_opt = None, content_opt = None, source_opt = None,
       sourceType_opt = None, url_opt = None, timestamp_opt = ts, metrics_opt = m,
       score_opt = None, tags_opt = None, category_opt = None \<rparr>"

definition sample_trend :: "string \<Rightarrow> string \<Rightarrow> real \<Rightarrow> Category \<Rightarrow> RankedTrend" where
  "sample_trend i ts ov cat =
     \<lparr> trend_id = i, title = ''t'', content = ''c'', source = ''s'', sourceType = SrcNews,
       url = ''u'', timestamp = ts, metrics = no_metrics,
       score = \<lparr> recency = Num 0, popularity = Num 0, engagement = Num 0, overall = Num ov \<rparr>,
       tags = [], category = cat \<rparr>"

text \<open>A candidate published at \<open>sample_now\<close>, with the given metrics and stored score.\<close>

definition fresh_sample :: "Metrics \<Rightarrow> TrendScore \<Rightarrow> RankedTrend" where
  "fresh_sample m sc =
     \<lparr> trend_id = ''fresh'', title = ''t'', content = ''c'', source = ''s'', sourceType = SrcX,
       url = ''u'', timestamp = ''2026-11-01T12:00:00.000Z'', metrics = m, score = sc,
       tags = [], category = General \<rparr>"

definition sample_video :: "string option \<Rightarrow> YouTubeVideo" where
  "sample_video vc =
     \<lparr> video_id = ''v1'', snippet = None,
       statistics = Some \<lparr> viewCount = vc, likeCount = Some ''12'', commentCount = None \<rparr> \<rparr>"

section \<open>Bounds on the constants of the examples\<close>

text \<open>From the Maclaurin expansion of the exponential, with a remainder of order 8.\<close>

lemma exp_neg1_tight: "(3678/10000 :: real) < exp (- 1) \<and> exp (- 1) < (3680/10000 :: real)"
proof -
  obtain t :: real where t: "\<bar>t\<bar> \<le> \<bar>- 1\<bar>"
    and e: "exp (- 1) = (\<Sum>m<8. ((- 1) ^ m) / fact m) + (exp t / fact 8) * (- 1) ^ 8"
    using Maclaurin_exp_le [of "- 1" 8] by blast
  have s: "(\<Sum>m<8. ((- 1 :: real) ^ m) / fact m) = 103 / 280"
    by (simp add: lessThan_nat_numeral lessThan_Suc fact_numeral)
  have "t \<le> 1" using t by simp
  then have "exp t \<le> exp 1" by simp
  also have "\<dots> \<le> 3" by (rule exp_le)
  finally have u: "exp t \<le> 3" .
  have l: "0 < exp t" by simp
  have r: "exp (- 1) = 103 / 280 + exp t / 40320"
    using e s by (simp add: fact_numeral)
  show ?thesis using r u l by linarith
qed

lemma log10_6251_bounds: "(167/44 :: real) < log 10 6251 \<and> log 10 6251 < (19/5 :: real)"
proof
  have "(10::real) powr (167/44) < 6251"
  proof (rule power_less_imp_less_base [where n = 44])
    have "((10::real) powr (167/44)) ^ 44 = 10 powr (167/44 * 44)"
      by (simp add: powr_power)
    also have "\<dots> = 10 powr (real (167::nat))" by simp
    also have "\<dots> = 10 ^ 167" by (subst powr_realpow) simp_all
    also have "\<dots> < (6251::real) ^ 44" by simp
    finally show "((10::real) powr (167/44)) ^ 44 < 6251 ^ 44" .
  qed simp
  then show "(167/44 :: real) < log 10 6251" by (subst less_log_iff) simp_all
next
  have "(6251::real) < 10 powr (19/5)"
  proof (rule power_less_imp_less_base [where n = 5])
    have "((10::real) powr (19/5)) ^ 5 = 10 powr (19/5 * 5)"
      by (simp add: powr_power)
    also have "\<dots> = 10 powr (real (19::nat))" by simp
    also have "\<dots> = 10 ^ 19" by (subst powr_realpow) simp_all
    finally have "((10::real) powr (19/5)) ^ 5 = 10 ^ 19" .
    then show "(6251::real) ^ 5 < (10 powr (19/5)) ^ 5" by simp
  qed simp
  then show "log 10 6251 < (19/5 :: real)" by (subst log_less_iff) simp_all
qed



section \<open>The scorer, value by value\<close>

lemma orElse_count_value: "finite_count v \<Longrightarrow> orElse v (Num 0) = Num (count_value v)"
  by (cases v rule: finite_count.cases) (auto split: jsnum.splits option.splits)

lemma nonneg_count_finite: "nonneg_count v \<Longrightarrow> finite_count v"
  by (cases v rule: nonneg_count.cases) auto

lemma nonneg_count_value: "nonneg_count v \<Longrightarrow> 0 \<le> count_value v"
  by (cases v rule: nonneg_count.cases) auto

lemma nonneg_metrics_finite: "nonneg_metrics m \<Longrightarrow> finite_metrics m"
  by (simp add: nonneg_metrics_def finite_metrics_def nonneg_count_finite)

lemma ageInHours_of_Some: "ageInHours_of now (Some ts) = Num (ageHours_spec now ts)"
  by (simp add: ageInHours_of_def ageHours_spec_def jssub_def)

lemma ageInHours_of_None: "ageInHours_of now None = NaN"
  by (simp add: ageInHours_of_def jssub_def)

lemma recency_calc:
  "recency (calculateTrendScore Date_parse now t) =
     Math_max (Num 0) (Math_min (Num 1) (Math_exp (jsdiv (jsneg
       (ageInHours_of now (new_Date_or_now Date_parse now (timestamp_opt t)))) (Num 24))))"
  by (simp add: calculateTrendScore_def Let_def)

lemma popularity_calc:
  "finite_metrics (metrics_or_empty (metrics_opt t)) \<Longrightarrow>
   popularity (calculateTrendScore Date_parse now t) =
     Math_min (Num 1) (jsdiv (Math_log10
       (Num (totalEngagement_spec (metrics_or_empty (metrics_opt t)) + 1))) (Num 6))"
  by (simp add: calculateTrendScore_def Let_def finite_metrics_def orElse_count_value
      totalEngagement_spec_def)

lemma engagement_calc:
  "finite_metrics (metrics_or_empty (metrics_opt t)) \<Longrightarrow>
   engagement (calculateTrendScore Date_parse now t) =
     (if 0 < totalImpressions_spec (metrics_or_empty (metrics_opt t))
      then Num (min 1 (activeEngagement_spec (metrics_or_empty (metrics_opt t))
                       / totalImpressions_spec (metrics_or_empty (metrics_opt t)) * 100))
      else Num 0)"
  by (simp add: calculateTrendScore_def Let_def finite_metrics_def orElse_count_value
      totalImpressions_spec_def activeEngagement_spec_def jsgt_def max_def min_def)

lemma overall_calc:
  "overall (calculateTrendScore Date_parse now t) =
     jsadd (jsadd (jsmul (recency (calculateTrendScore Date_parse now t)) (Num (4 / 10)))
                  (jsmul (popularity (calculateTrendScore Date_parse now t)) (Num (4 / 10))))
           (jsmul (engagement (calculateTrendScore Date_parse now t)) (Num (2 / 10)))"
  by (simp add: calculateTrendScore_def Let_def)

lemma recency_instant:
  "new_Date_or_now Date_parse now (timestamp_opt t) = Some ts \<Longrightarrow>
   recency (calculateTrendScore Date_parse now t) =
     Num (max 0 (min 1 (exp (- ageHours_spec now ts / 24))))"
  by (simp add: recency_calc ageInHours_of_Some max_def min_def)

lemma recency_invalid:
  "new_Date_or_now Date_parse now (timestamp_opt t) = None \<Longrightarrow>
   recency (calculateTrendScore Date_parse now t) = NaN"
  by (simp add: recency_calc ageInHours_of_None)

lemma popularity_real:
  "finite_metrics (metrics_or_empty (metrics_opt t)) \<Longrightarrow>
   - 1 < totalEngagement_spec (metrics_or_empty (metrics_opt t)) \<Longrightarrow>
   popularity (calculateTrendScore Date_parse now t) =
     Num (min 1 (log 10 (totalEngagement_spec (metrics_or_empty (metrics_opt t)) + 1) / 6))"
  by (simp add: popularity_calc min_def)


lemma exp_neg2_bounds: "(1345/10000 :: real) < exp (- 2) \<and> exp (- 2) < (1355/10000 :: real)"
proof -
  have e: "exp (- 2 :: real) = exp (- 1) * exp (- 1)"
    by (simp add: exp_add [symmetric])
  have l: "(3678/10000 :: real) < exp (- 1)" and u: "exp (- 1) < (3680/10000 :: real)"
    using exp_neg1_tight by simp_all
  have "(3678/10000 :: real) * (3678/10000) < exp (- 1) * exp (- 1)"
    using l by (intro mult_strict_mono) simp_all
  moreover have "exp (- 1) * exp (- 1) < (3680/10000 :: real) * (3680/10000)"
    using u by (intro mult_strict_mono) simp_all
  ultimately show ?thesis unfolding e by simp
qed

lemma score_reals:
  assumes ts: "new_Date_or_now Date_parse now (timestamp_opt t) = Some ts"
    and nn: "nonneg_metrics (metrics_or_empty (metrics_opt t))"
  shows "\<exists>r p e. recency (calculateTrendScore Date_parse now t) = Num r
           \<and> popularity (calculateTrendScore Date_parse now t) = Num p
           \<and> engagement (calculateTrendScore Date_parse now t) = Num e
           \<and> overall (calculateTrendScore Date_parse now t) = Num (r * (4 / 10) + p * (4 / 10) + e * (2 / 10))
           \<and> r = max 0 (min 1 (exp (- ageHours_spec now ts / 24)))
           \<and> 0 \<le> r \<and> r \<le> 1 \<and> 0 \<le> p \<and> p \<le> 1 \<and> 0 \<le> e \<and> e \<le> 1"
proof -
  let ?m = "metrics_or_empty (metrics_opt t)"
  let ?s = "calculateTrendScore Date_parse now t"
  have fin: "finite_metrics ?m" using nn by (rule nonneg_metrics_finite)
  have T: "0 \<le> totalEngagement_spec ?m"
    using nn by (simp add: nonneg_metrics_def totalEngagement_spec_def nonneg_count_value)
  have A: "0 \<le> activeEngagement_spec ?m"
    using nn by (simp add: nonneg_metrics_def activeEngagement_spec_def nonneg_count_value)
  define r where "r = max 0 (min 1 (exp (- ageHours_spec now ts / 24)))"
  define p where "p = min 1 (log 10 (totalEngagement_spec ?m + 1) / 6)"
  define e where "e = (if 0 < totalImpressions_spec ?m
     then min 1 (activeEngagement_spec ?m / totalImpressions_spec ?m * 100) else 0)"
  have R: "recency ?s = Num r" unfolding r_def using ts by (rule recency_instant)
  have P: "popularity ?s = Num p" unfolding p_def using fin T by (intro popularity_real) simp_all
  have E: "engagement ?s = Num e" unfolding e_def using fin by (simp add: engagement_calc)
  have O: "overall ?s = Num (r * (4 / 10) + p * (4 / 10) + e * (2 / 10))"
    by (simp add: overall_calc R P E)
  have r01: "0 \<le> r \<and> r \<le> 1" by (simp add: r_def)
  have "0 \<le> log 10 (totalEngagement_spec ?m + 1)" using T by simp
  then have p01: "0 \<le> p \<and> p \<le> 1" by (simp add: p_def)
  have e01: "0 \<le> e \<and> e \<le> 1" using A by (simp add: e_def)
  show ?thesis using R P E O r01 p01 e01 r_def by blast
qed

section \<open>Properties of the scorer\<close>

text \<open>
  C2 (as amended). For every candidate whose timestamp is absent, empty or denotes
  an instant, and whose metrics are each absent, \<open>NaN\<close> or a finite number that is
  not negative, the four values computed by \<open>calculateTrendScore\<close> (recency,
  popularity, engagement and overall) lie in the closed interval from 0 to 1.
\<close>

theorem scores_in_unit_interval:
  assumes "new_Date_or_now Date_parse now (timestamp_opt t) = Some ts"
    and "nonneg_metrics (metrics_or_empty (metrics_opt t))"
  shows "in_unit_interval (recency (calculateTrendScore Date_parse now t))
       \<and> in_unit_interval (popularity (calculateTrendScore Date_parse now t))
       \<and> in_unit_interval (engagement (calculateTrendScore Date_parse now t))
       \<and> in_unit_interval (overall (calculateTrendScore Date_parse now t))"
proof -
  obtain r p e where s: "recency (calculateTrendScore Date_parse now t) = Num r"
      "popularity (calculateTrendScore Date_parse now t) = Num p"
      "engagement (calculateTrendScore Date_parse now t) = Num e"
      "overall (calculateTrendScore Date_parse now t) = Num (r * (4 / 10) + p * (4 / 10) + e * (2 / 10))"
    and b: "0 \<le> r" "r \<le> 1" "0 \<le> p" "p \<le> 1" "0 \<le> e" "e \<le> 1"
    using score_reals [OF assms] by blast
  have "0 \<le> r * (4 / 10) + p * (4 / 10) + e * (2 / 10)" using b by simp
  moreover have "r * (4 / 10) + p * (4 / 10) + e * (2 / 10) \<le> 1" using b by simp
  ultimately show ?thesis using s b by simp
qed

text \<open>The theorem at a day-old candidate with the metrics of the specification's scenario.\<close>

theorem scores_in_unit_interval_witness:
  "new_Date_or_now sample_parse sample_now
       (timestamp_opt (sample_partial (Some ''2026-10-31T12:00:00.000Z'') (Some sample_metrics)))
     = Some 1793448000000
   \<and> nonneg_metrics (metrics_or_empty
       (metrics_opt (sample_partial (Some ''2026-10-31T12:00:00.000Z'') (Some sample_metrics))))
   \<and> in_unit_interval (recency (calculateTrendScore sample_parse sample_now
       (sample_partial (Some ''2026-10-31T12:00:00.000Z'') (Some sample_metrics))))
   \<and> in_unit_interval (popularity (calculateTrendScore sample_parse sample_now
       (sample_partial (Some ''2026-10-31T12:00:00.000Z'') (Some sample_metrics))))
   \<and> in_unit_interval (engagement (calculateTrendScore sample_parse sample_now
       (sample_partial (Some ''2026-10-31T12:00:00.000Z'') (Some sample_metrics))))
   \<and> in_unit_interval (overall (calculateTrendScore sample_parse sample_now
       (sample_partial (Some ''2026-10-31T12:00:00.000Z'') (Some sample_metrics))))"
proof -
  have h1: "new_Date_or_now sample_parse sample_now
       (timestamp_opt (sample_partial (Some ''2026-10-31T12:00:00.000Z'') (Some sample_metrics)))
     = Some 1793448000000"
    by (simp add: sample_partial_def sample_parse_def)
  have h2: "nonneg_metrics (metrics_or_empty
       (metrics_opt (sample_partial (Some ''2026-10-31T12:00:00.000Z'') (Some sample_metrics))))"
    by (simp add: sample_partial_def sample_metrics_def nonneg_metrics_def)
  show ?thesis using h1 h2 scores_in_unit_interval [OF h1 h2] by simp
qed

text \<open>
  C2 as stated, for every candidate, fails: a timestamp that does not parse gives
  the recency \<open>NaN\<close>, and a negative view count gives a negative popularity.
\<close>

theorem scores_outside_unit_interval:
  "\<not> in_unit_interval (recency (calculateTrendScore sample_parse sample_now
        (sample_partial (Some ''not-a-date'') None)))
   \<and> \<not> in_unit_interval (popularity (calculateTrendScore sample_parse sample_now
        (sample_partial None (Some (no_metrics \<lparr> views := Some (Num (- 50)) \<rparr>)))))"
proof -
  have "new_Date_or_now sample_parse sample_now
          (timestamp_opt (sample_partial (Some ''not-a-date'') None)) = None"
    by (simp add: sample_partial_def sample_parse_def)
  then have a: "recency (calculateTrendScore sample_parse sample_now
        (sample_partial (Some ''not-a-date'') None)) = NaN"
    by (rule recency_invalid)
  have b: "popularity (calculateTrendScore sample_parse sample_now
        (sample_partial None (Some (no_metrics \<lparr> views := Some (Num (- 50)) \<rparr>))))
      = Num (min 1 (log 10 (1 / 2) / 6))"
    by (subst popularity_real)
       (simp_all add: sample_partial_def no_metrics_def finite_metrics_def totalEngagement_spec_def)
  have neg: "min 1 (x / 6) < 0" if "x < 0" for x :: real
    using that by simp
  have "log 10 (1 / 2) < (0::real)" by simp
  then have "min 1 (log 10 (1 / 2) / 6) < (0::real)" by (rule neg)
  then show ?thesis using a b by simp
qed

text \<open>
  For a candidate whose timestamp is absent, empty or denotes an instant, the recency
  is \<open>exp (- ageHours / 24)\<close> clamped to the interval from 0 to 1, where \<open>ageHours\<close>
  is \<open>now - timestamp\<close> in hours; for a negative age (a timestamp in the future) it
  is 1; at timestamp \<open>now\<close> it is 1, at 24 hours \<open>exp (- 1)\<close>, about 0.368, and at
  48 hours \<open>exp (- 2)\<close>, about 0.135.
\<close>

lemma recency_formula:
  assumes "new_Date_or_now Date_parse now (timestamp_opt t) = Some ts"
  shows "recency (calculateTrendScore Date_parse now t)
           = Num (max 0 (min 1 (exp (- ageHours_spec now ts / 24))))
       \<and> (ageHours_spec now ts < 0 \<longrightarrow> recency (calculateTrendScore Date_parse now t) = Num 1)
       \<and> (ts = now \<longrightarrow> recency (calculateTrendScore Date_parse now t) = Num 1)
       \<and> (ageHours_spec now ts = 24 \<longrightarrow>
            recency (calculateTrendScore Date_parse now t) = Num (exp (- 1))
            \<and> approx3 (exp (- 1)) (368 / 1000))
       \<and> (ageHours_spec now ts = 48 \<longrightarrow>
            recency (calculateTrendScore Date_parse now t) = Num (exp (- 2))
            \<and> approx3 (exp (- 2)) (135 / 1000))"
proof -
  have f: "recency (calculateTrendScore Date_parse now t)
             = Num (max 0 (min 1 (exp (- ageHours_spec now ts / 24))))"
    using assms by (rule recency_instant)
  have neg: "ageHours_spec now ts < 0 \<Longrightarrow> max 0 (min 1 (exp (- ageHours_spec now ts / 24))) = 1"
    by (simp add: max_def min_def)
  have zero: "ts = now \<Longrightarrow> max 0 (min 1 (exp (- ageHours_spec now ts / 24))) = 1"
    by (simp add: ageHours_spec_def)
  have e1: "exp (- 1 :: real) \<le> 1" by simp
  have e2: "exp (- 2 :: real) \<le> 1" by simp
  have day: "ageHours_spec now ts = 24 \<Longrightarrow>
      max 0 (min 1 (exp (- ageHours_spec now ts / 24))) = exp (- 1)"
    using e1 by (simp add: max_def min_def)
  have days: "ageHours_spec now ts = 48 \<Longrightarrow>
      max 0 (min 1 (exp (- ageHours_spec now ts / 24))) = exp (- 2)"
    using e2 by (simp add: max_def min_def)
  have a1: "approx3 (exp (- 1)) (368 / 1000)"
    unfolding approx3_def using exp_neg1_tight by linarith
  have a2: "approx3 (exp (- 2)) (135 / 1000)"
    unfolding approx3_def using exp_neg2_bounds by linarith
  show ?thesis using f neg zero day days a1 a2 by simp
qed

text \<open>The formula at a fresh candidate, at one 24 and one 48 hours old, and at one from
  the future.\<close>

lemma recency_examples:
  "recency (calculateTrendScore sample_parse sample_now
      (sample_partial (Some ''2026-11-01T12:00:00.000Z'') None)) = Num 1
   \<and> recency (calculateTrendScore sample_parse sample_now
      (sample_partial (Some ''2026-10-31T12:00:00.000Z'') None)) = Num (exp (- 1))
   \<and> recency (calculateTrendScore sample_parse sample_now
      (sample_partial (Some ''2026-10-30T12:00:00.000Z'') None)) = Num (exp (- 2))
   \<and> recency (calculateTrendScore sample_parse 1793448000000
      (sample_partial (Some ''2026-11-01T12:00:00.000Z'') None)) = Num 1"
proof -
  have h0: "new_Date_or_now sample_parse sample_now
      (timestamp_opt (sample_partial (Some ''2026-11-01T12:00:00.000Z'') None)) = Some sample_now"
    by (simp add: sample_partial_def sample_parse_def sample_now_def)
  have h1: "new_Date_or_now sample_parse sample_now
      (timestamp_opt (sample_partial (Some ''2026-10-31T12:00:00.000Z'') None)) = Some 1793448000000"
    by (simp add: sample_partial_def sample_parse_def)
  have h2: "new_Date_or_now sample_parse sample_now
      (timestamp_opt (sample_partial (Some ''2026-10-30T12:00:00.000Z'') None)) = Some 1793361600000"
    by (simp add: sample_partial_def sample_parse_def)
  have h3: "new_Date_or_now sample_parse 1793448000000
      (timestamp_opt (sample_partial (Some ''2026-11-01T12:00:00.000Z'') None)) = Some 1793534400000"
    by (simp add: sample_partial_def sample_parse_def)
  have g1: "ageHours_spec sample_now 1793448000000 = 24"
    by (simp add: ageHours_spec_def sample_now_def)
  have g2: "ageHours_spec sample_now 1793361600000 = 48"
    by (simp add: ageHours_spec_def sample_now_def)
  have g3: "ageHours_spec 1793448000000 1793534400000 < 0"
    by (simp add: ageHours_spec_def)
  have c0: "recency (calculateTrendScore sample_parse sample_now
      (sample_partial (Some ''2026-11-01T12:00:00.000Z'') None)) = Num 1"
    using recency_formula [OF h0] by blast
  have c1: "recency (calculateTrendScore sample_parse sample_now
      (sample_partial (Some ''2026-10-31T12:00:00.000Z'') None)) = Num (exp (- 1))"
    using recency_formula [OF h1] g1 by blast
  have c2: "recency (calculateTrendScore sample_parse sample_now
      (sample_partial (Some ''2026-10-30T12:00:00.000Z'') None)) = Num (exp (- 2))"
    using recency_formula [OF h2] g2 by blast
  have c3: "recency (calculateTrendScore sample_parse 1793448000000
      (sample_partial (Some ''2026-11-01T12:00:00.000Z'') None)) = Num 1"
    using recency_formula [OF h3] g3 by blast
  show ?thesis using c0 c1 c2 c3 by blast
qed

text \<open>
  C3, at a timestamp that does not parse. The claim gives the recency of every
  candidate as \<open>exp (- ageHours / 24)\<close> clamped to the interval from 0 to 1. For the
  timestamp \<open>yesterday\<close> the date is invalid, the age is \<open>NaN\<close> and so is the recency:
  \<open>Math.max(0, Math.min(1, NaN))\<close> clamps nothing. At the instants of the claim's
  examples the code gives the claimed values.
\<close>

theorem recency_unparseable:
  "recency (calculateTrendScore sample_parse sample_now
      (sample_partial (Some ''yesterday'') None)) = NaN
   \<and> \<not> in_unit_interval (recency (calculateTrendScore sample_parse sample_now
      (sample_partial (Some ''yesterday'') None)))
   \<and> recency (calculateTrendScore sample_parse sample_now
      (sample_partial (Some ''2026-11-01T12:00:00.000Z'') None)) = Num 1
   \<and> recency (calculateTrendScore sample_parse sample_now
      (sample_partial (Some ''2026-10-31T12:00:00.000Z'') None)) = Num (exp (- 1))
   \<and> approx3 (exp (- 1)) (368 / 1000)
   \<and> recency (calculateTrendScore sample_parse sample_now
      (sample_partial (Some ''2026-10-30T12:00:00.000Z'') None)) = Num (exp (- 2))
   \<and> approx3 (exp (- 2)) (135 / 1000)
   \<and> recency (calculateTrendScore sample_parse 1793448000000
      (sample_partial (Some ''2026-11-01T12:00:00.000Z'') None)) = Num 1"
proof -
  have "new_Date_or_now sample_parse sample_now
          (timestamp_opt (sample_partial (Some ''yesterday'') None)) = None"
    by (simp add: sample_partial_def sample_parse_def)
  then have n: "recency (calculateTrendScore sample_parse sample_now
        (sample_partial (Some ''yesterday'') None)) = NaN"
    by (rule recency_invalid)
  have u: "\<not> in_unit_interval (recency (calculateTrendScore sample_parse sample_now
      (sample_partial (Some ''yesterday'') None)))"
    unfolding n by simp
  have a1: "approx3 (exp (- 1)) (368 / 1000)"
    unfolding approx3_def using exp_neg1_tight by linarith
  have a2: "approx3 (exp (- 2)) (135 / 1000)"
    unfolding approx3_def using exp_neg2_bounds by linarith
  show ?thesis using n u a1 a2 recency_examples by blast
qed

text \<open>The scenario of the specification: a fresh candidate with 1000 likes, 200 shares,
  50 comments and 500000 views.\<close>

lemma scenario_scores:
  assumes ts: "new_Date_or_now Date_parse now (timestamp_opt t) = Some now"
    and m: "metrics_opt t = Some sample_metrics"
  shows "popularity (calculateTrendScore Date_parse now t) = Num (log 10 6251 / 6)"
    and "engagement (calculateTrendScore Date_parse now t) = Num (5 / 100)"
    and "recency (calculateTrendScore Date_parse now t) = Num 1"
    and "overall (calculateTrendScore Date_parse now t) = Num (41 / 100 + 4 / 10 * (log 10 6251 / 6))"
proof -
  have fin: "finite_metrics (metrics_or_empty (metrics_opt t))"
    by (simp add: m sample_metrics_def finite_metrics_def)
  have T: "totalEngagement_spec (metrics_or_empty (metrics_opt t)) = 6250"
    by (simp add: m sample_metrics_def totalEngagement_spec_def)
  have le: "log 10 6251 / 6 \<le> (1::real)"
    using log10_6251_bounds by simp
  show P: "popularity (calculateTrendScore Date_parse now t) = Num (log 10 6251 / 6)"
    using le by (simp add: popularity_real [OF fin] T min_def)
  show E: "engagement (calculateTrendScore Date_parse now t) = Num (5 / 100)"
    by (simp add: engagement_calc [OF fin] m sample_metrics_def totalImpressions_spec_def
        activeEngagement_spec_def)
  show R: "recency (calculateTrendScore Date_parse now t) = Num 1"
    by (simp add: recency_instant [OF ts] ageHours_spec_def)
  show "overall (calculateTrendScore Date_parse now t) = Num (41 / 100 + 4 / 10 * (log 10 6251 / 6))"
    by (simp add: overall_calc P E R)
qed

lemma scenario_numbers:
  "approx3 (log 10 6251 / 6) (633 / 1000)"
  "approx3 (41 / 100 + 4 / 10 * (log 10 6251 / 6)) (663 / 1000)"
  "\<not> approx3 (log 10 6251 / 6) (637 / 1000)"
  "\<not> approx3 (41 / 100 + 4 / 10 * (log 10 6251 / 6)) (665 / 1000)"
  unfolding approx3_def using log10_6251_bounds by linarith+

text \<open>
  C4 (as amended). For every candidate with finite metrics the popularity is
  \<open>Math.min(1, Math.log10(totalEngagement + 1) / 6)\<close>, where \<open>totalEngagement\<close> is
  \<open>likes + shares + comments + retweets + views / 100\<close>, an absent metric counting
  as 0; where \<open>totalEngagement\<close> is above \<open>- 1\<close> this is the real number
  \<open>min 1 (log10 (totalEngagement + 1) / 6)\<close>. In the scenario of the specification
  the popularity is \<open>log10 6251 / 6\<close>, about 0.633, the engagement is 0.05 and the
  overall score is about 0.663.
\<close>

theorem popularity_formula:
  "(finite_metrics (metrics_or_empty (metrics_opt t)) \<longrightarrow>
    popularity (calculateTrendScore Date_parse now t)
      = Math_min (Num 1) (jsdiv (Math_log10
          (Num (totalEngagement_spec (metrics_or_empty (metrics_opt t)) + 1))) (Num 6)))
   \<and> (finite_metrics (metrics_or_empty (metrics_opt t))
      \<and> - 1 < totalEngagement_spec (metrics_or_empty (metrics_opt t)) \<longrightarrow>
    popularity (calculateTrendScore Date_parse now t)
      = Num (min 1 (log 10 (totalEngagement_spec (metrics_or_empty (metrics_opt t)) + 1) / 6)))
   \<and> (new_Date_or_now Date_parse now (timestamp_opt t) = Some now
        \<and> metrics_opt t = Some sample_metrics \<longrightarrow>
      popularity (calculateTrendScore Date_parse now t) = Num (log 10 6251 / 6)
      \<and> approx3 (log 10 6251 / 6) (633 / 1000)
      \<and> engagement (calculateTrendScore Date_parse now t) = Num (5 / 100)
      \<and> overall (calculateTrendScore Date_parse now t)
          = Num (41 / 100 + 4 / 10 * (log 10 6251 / 6))
      \<and> approx3 (41 / 100 + 4 / 10 * (log 10 6251 / 6)) (663 / 1000))"
  using popularity_calc [of t Date_parse now] popularity_real [of t Date_parse now]
    scenario_scores [of Date_parse now t] scenario_numbers(1,2)
  by blast

text \<open>The theorem at the scenario.\<close>

theorem popularity_formula_witness:
  "finite_metrics (metrics_or_empty (metrics_opt
      (sample_partial (Some ''2026-11-01T12:00:00.000Z'') (Some sample_metrics))))
   \<and> totalEngagement_spec (metrics_or_empty (metrics_opt
      (sample_partial (Some ''2026-11-01T12:00:00.000Z'') (Some sample_metrics)))) = 6250
   \<and> new_Date_or_now sample_parse sample_now (timestamp_opt
      (sample_partial (Some ''2026-11-01T12:00:00.000Z'') (Some sample_metrics))) = Some sample_now
   \<and> popularity (calculateTrendScore sample_parse sample_now
      (sample_partial (Some ''2026-11-01T12:00:00.000Z'') (Some sample_metrics)))
      = Num (min 1 (log 10 (6250 + 1) / 6))
   \<and> popularity (calculateTrendScore sample_parse sample_now
      (sample_partial (Some ''2026-11-01T12:00:00.000Z'') (Some sample_metrics)))
      = Num (log 10 6251 / 6)
   \<and> engagement (calculateTrendScore sample_parse sample_now
      (sample_partial (Some ''2026-11-01T12:00:00.000Z'') (Some sample_metrics)))
      = Num (5 / 100)
   \<and> overall (calculateTrendScore sample_parse sample_now
      (sample_partial (Some ''2026-11-01T12:00:00.000Z'') (Some sample_metrics)))
      = Num (41 / 100 + 4 / 10 * (log 10 6251 / 6))"
proof -
  let ?t = "sample_partial (Some ''2026-11-01T12:00:00.000Z'') (Some sample_metrics)"
  have h1: "finite_metrics (metrics_or_empty (metrics_opt ?t))"
    by (simp add: sample_partial_def sample_metrics_def finite_metrics_def)
  have h2: "totalEngagement_spec (metrics_or_empty (metrics_opt ?t)) = 6250"
    by (simp add: sample_partial_def sample_metrics_def totalEngagement_spec_def)
  have h3: "new_Date_or_now sample_parse sample_now (timestamp_opt ?t) = Some sample_now"
    by (simp add: sample_partial_def sample_parse_def sample_now_def)
  have h4: "metrics_opt ?t = Some sample_metrics"
    by (simp add: sample_partial_def)
  have h5: "- 1 < totalEngagement_spec (metrics_or_empty (metrics_opt ?t))"
    by (simp add: h2)
  show ?thesis
    using popularity_formula [of ?t sample_parse sample_now] h1 h2 h3 h4 h5
    by (metis add.commute)
qed

text \<open>
  C4 as stated gives the popularity of the scenario as about 0.637 and the overall
  score as about 0.665; neither agrees with the computed value to three decimals.
\<close>

theorem scenario_figures_off:
  "popularity (calculateTrendScore sample_parse sample_now
      (sample_partial (Some ''2026-11-01T12:00:00.000Z'') (Some sample_metrics)))
      = Num (log 10 6251 / 6)
   \<and> \<not> approx3 (log 10 6251 / 6) (637 / 1000)
   \<and> overall (calculateTrendScore sample_parse sample_now
      (sample_partial (Some ''2026-11-01T12:00:00.000Z'') (Some sample_metrics)))
      = Num (41 / 100 + 4 / 10 * (log 10 6251 / 6))
   \<and> \<not> approx3 (41 / 100 + 4 / 10 * (log 10 6251 / 6)) (665 / 1000)"
proof -
  let ?t = "sample_partial (Some ''2026-11-01T12:00:00.000Z'') (Some sample_metrics)"
  have h3: "new_Date_or_now sample_parse sample_now (timestamp_opt ?t) = Some sample_now"
    by (simp add: sample_partial_def sample_parse_def sample_now_def)
  have h4: "metrics_opt ?t = Some sample_metrics"
    by (simp add: sample_partial_def)
  show ?thesis
    using scenario_scores(1,4) [OF h3 h4] scenario_numbers(3,4) by blast
qed

text \<open>
  C5. For every candidate with finite metrics, the engagement is
  \<open>min 1 ((comments + shares + retweets) / max views likes * 100)\<close> when
  \<open>max views likes\<close> is positive, and exactly 0 when \<open>max views likes\<close> is 0: the
  division is guarded, and the branch without impressions divides by nothing.
\<close>

theorem engagement_formula:
  assumes "finite_metrics (metrics_or_empty (metrics_opt t))"
  shows "(0 < totalImpressions_spec (metrics_or_empty (metrics_opt t)) \<longrightarrow>
            engagement (calculateTrendScore Date_parse now t)
              = Num (min 1 (activeEngagement_spec (metrics_or_empty (metrics_opt t))
                           / totalImpressions_spec (metrics_or_empty (metrics_opt t)) * 100)))
       \<and> (totalImpressions_spec (metrics_or_empty (metrics_opt t)) = 0 \<longrightarrow>
            engagement (calculateTrendScore Date_parse now t) = Num 0)"
  using assms by (simp add: engagement_calc)

text \<open>The theorem at the scenario's metrics and at a candidate without metrics.\<close>

theorem engagement_formula_witness:
  "finite_metrics (metrics_or_empty (metrics_opt (sample_partial None (Some sample_metrics))))
   \<and> totalImpressions_spec (metrics_or_empty (metrics_opt (sample_partial None (Some sample_metrics))))
       = 500000
   \<and> engagement (calculateTrendScore sample_parse sample_now (sample_partial None (Some sample_metrics)))
       = Num (5 / 100)
   \<and> finite_metrics (metrics_or_empty (metrics_opt (sample_partial None None)))
   \<and> totalImpressions_spec (metrics_or_empty (metrics_opt (sample_partial None None))) = 0
   \<and> engagement (calculateTrendScore sample_parse sample_now (sample_partial None None)) = Num 0"
proof -
  let ?t = "sample_partial None (Some sample_metrics)"
  let ?u = "sample_partial None None"
  have h1: "finite_metrics (metrics_or_empty (metrics_opt ?t))"
    by (simp add: sample_partial_def sample_metrics_def finite_metrics_def)
  have h2: "totalImpressions_spec (metrics_or_empty (metrics_opt ?t)) = 500000"
    by (simp add: sample_partial_def sample_metrics_def totalImpressions_spec_def)
  have h3: "activeEngagement_spec (metrics_or_empty (metrics_opt ?t)) = 250"
    by (simp add: sample_partial_def sample_metrics_def activeEngagement_spec_def)
  have k1: "finite_metrics (metrics_or_empty (metrics_opt ?u))"
    by (simp add: sample_partial_def no_metrics_def finite_metrics_def)
  have k2: "totalImpressions_spec (metrics_or_empty (metrics_opt ?u)) = 0"
    by (simp add: sample_partial_def no_metrics_def totalImpressions_spec_def)
  have a: "engagement (calculateTrendScore sample_parse sample_now ?t) = Num (5 / 100)"
    using engagement_formula [OF h1, of sample_parse sample_now] by (simp add: h2 h3)
  have b: "engagement (calculateTrendScore sample_parse sample_now ?u) = Num 0"
    using engagement_formula [OF k1, of sample_parse sample_now] by (simp add: k2)
  show ?thesis using h1 h2 k1 k2 a b by blast
qed

lemma overall_invalid:
  "new_Date_or_now Date_parse now (timestamp_opt t) = None \<Longrightarrow>
   overall (calculateTrendScore Date_parse now t) = NaN"
  by (simp add: overall_calc recency_invalid)

text \<open>
  C6, at a timestamp that does not parse. The claim has such a timestamp treated as
  \<open>now\<close>, with recency 1. The code does so for an absent and for an empty timestamp
  only: for the string \<open>not-a-date\<close> the date is invalid, and the recency and the
  overall score are \<open>NaN\<close>.
\<close>

theorem unparseable_timestamp_scores:
  "new_Date_or_now sample_parse sample_now
      (timestamp_opt (sample_partial (Some ''not-a-date'') (Some sample_metrics))) = None
   \<and> recency (calculateTrendScore sample_parse sample_now
      (sample_partial (Some ''not-a-date'') (Some sample_metrics))) = NaN
   \<and> overall (calculateTrendScore sample_parse sample_now
      (sample_partial (Some ''not-a-date'') (Some sample_metrics))) = NaN
   \<and> recency (calculateTrendScore sample_parse sample_now
      (sample_partial None (Some sample_metrics))) = Num 1
   \<and> recency (calculateTrendScore sample_parse sample_now
      (sample_partial (Some []) (Some sample_metrics))) = Num 1"
proof -
  have n: "new_Date_or_now sample_parse sample_now
      (timestamp_opt (sample_partial (Some ''not-a-date'') (Some sample_metrics))) = None"
    by (simp add: sample_partial_def sample_parse_def)
  have a: "new_Date_or_now sample_parse sample_now
      (timestamp_opt (sample_partial None (Some sample_metrics))) = Some sample_now"
    by (simp add: sample_partial_def)
  have b: "new_Date_or_now sample_parse sample_now
      (timestamp_opt (sample_partial (Some []) (Some sample_metrics))) = Some sample_now"
    by (simp add: sample_partial_def)
  show ?thesis
    using n recency_invalid [OF n] overall_invalid [OF n]
      scenario_scores(3) [OF a] scenario_scores(3) [OF b]
    by (simp add: sample_partial_def)
qed

section \<open>Properties of sort, slice and the ranker\<close>

lemma jsge_Num [simp]: "jsge (Num x) (Num y) = (y \<le> x)"
  by (auto simp: jsge_def jsle_def)

lemma jsle_Num [simp]: "jsle (Num x) (Num y) = (x \<le> y)"
  by (auto simp: jsle_def)

subsection \<open>sort and slice\<close>

lemma set_insert_sorted: "set (insert_sorted comparefn x ys) = insert x (set ys)"
  by (induction ys) auto

lemma length_insert_sorted: "length (insert_sorted comparefn x ys) = Suc (length ys)"
  by (induction ys) auto

lemma set_Array_sort: "set (Array_sort comparefn xs) = set xs"
  by (induction xs) (auto simp: Array_sort_def set_insert_sorted)

lemma length_Array_sort: "length (Array_sort comparefn xs) = length xs"
  by (induction xs) (auto simp: Array_sort_def length_insert_sorted)

lemma Array_slice0_take: "\<exists>n. Array_slice0 e xs = take n xs"
proof (cases e)
  case NaN
  then have "Array_slice0 e xs = take 0 xs" by simp
  then show ?thesis by blast
next
  case NInf
  then have "Array_slice0 e xs = take 0 xs" by simp
  then show ?thesis by blast
next
  case PInf
  then have "Array_slice0 e xs = take (length xs) xs" by simp
  then show ?thesis by blast
next
  case (Num x)
  then show ?thesis by (auto simp: Let_def)
qed

lemma set_Array_slice0: "set (Array_slice0 e xs) \<subseteq> set xs"
  using Array_slice0_take [of e xs] by (auto dest: in_set_takeD)

lemma sorted_wrt_Array_slice0: "sorted_wrt P xs \<Longrightarrow> sorted_wrt P (Array_slice0 e xs)"
  using Array_slice0_take [of e xs] by (auto simp: sorted_wrt_take)

lemma length_Array_slice0_le: "length (Array_slice0 e xs) \<le> length xs"
  using Array_slice0_take [of e xs] by auto

lemma Array_slice0_all:
  "real (length xs) \<le> e \<Longrightarrow> Array_slice0 (Num e) xs = xs"
proof -
  assume a: "real (length xs) \<le> e"
  then have e0: "0 \<le> e" by (meson of_nat_0_le_iff order_trans)
  have "int (length xs) \<le> \<lfloor>e\<rfloor>" using a by (simp add: le_floor_iff)
  then show ?thesis using e0 by (simp add: Let_def ToIntegerOrInfinity_fin_def min_def)
qed

lemma length_Array_slice0_bound:
  assumes "jsle (Num 0) e"
  shows "jsle (Num (real (length (Array_slice0 e xs)))) e"
proof (cases e)
  case (Num x)
  with assms have x0: "0 \<le> x" by simp
  have "length (Array_slice0 e xs) \<le> nat \<lfloor>x\<rfloor>"
    using Num x0 by (simp add: Let_def ToIntegerOrInfinity_fin_def)
  then have "real (length (Array_slice0 e xs)) \<le> real (nat \<lfloor>x\<rfloor>)"
    by (simp only: of_nat_le_iff)
  also have "\<dots> = real_of_int \<lfloor>x\<rfloor>" using x0 by simp
  also have "\<dots> \<le> x" by simp
  finally show ?thesis using Num by simp
qed (use assms in \<open>auto simp: jsle_def\<close>)

subsection \<open>The comparison of the ranker\<close>

lemma by_overall_desc_order:
  "overall (score a) \<noteq> NaN \<Longrightarrow> overall (score b) \<noteq> NaN \<Longrightarrow>
   jsgt (SortCompare by_overall_desc a b) (Num 0) = (\<not> overall_desc a b)"
  by (cases "overall (score a)"; cases "overall (score b)")
     (auto simp: by_overall_desc_def SortCompare_def jssub_def jsgt_def overall_desc_def
        jsge_def jsle_def)

lemma overall_desc_total:
  "overall (score a) \<noteq> NaN \<Longrightarrow> overall (score b) \<noteq> NaN \<Longrightarrow>
   \<not> overall_desc a b \<Longrightarrow> overall_desc b a"
  by (cases "overall (score a)"; cases "overall (score b)")
     (auto simp: overall_desc_def jsge_def jsle_def)

lemma overall_desc_trans:
  "overall_desc a b \<Longrightarrow> overall_desc b c \<Longrightarrow> overall_desc a c"
  by (cases "overall (score a)"; cases "overall (score b)"; cases "overall (score c)")
     (auto simp: overall_desc_def jsge_def jsle_def)

lemma sorted_insert_sorted:
  assumes "sorted_wrt overall_desc ys" and "overall (score x) \<noteq> NaN"
    and "\<forall>y\<in>set ys. overall (score y) \<noteq> NaN"
  shows "sorted_wrt overall_desc (insert_sorted by_overall_desc x ys)"
  using assms
proof (induction ys)
  case Nil
  then show ?case by simp
next
  case (Cons y ys)
  show ?case
  proof (cases "overall_desc x y")
    case True
    then have "\<forall>z\<in>set ys. overall_desc x z"
      using Cons.prems(1) by (auto intro: overall_desc_trans)
    then show ?thesis
      using True Cons.prems by (simp add: by_overall_desc_order)
  next
    case False
    then have "overall_desc y x"
      using Cons.prems by (simp add: overall_desc_total)
    then show ?thesis
      using False Cons by (auto simp: by_overall_desc_order set_insert_sorted)
  qed
qed

lemma sorted_Array_sort:
  "\<forall>x\<in>set xs. overall (score x) \<noteq> NaN \<Longrightarrow>
   sorted_wrt overall_desc (Array_sort by_overall_desc xs)"
proof (induction xs)
  case Nil
  then show ?case by (simp add: Array_sort_def)
next
  case (Cons x xs)
  then have "sorted_wrt overall_desc (Array_sort by_overall_desc xs)" by simp
  then have "sorted_wrt overall_desc
      (insert_sorted by_overall_desc x (Array_sort by_overall_desc xs))"
    using Cons.prems by (intro sorted_insert_sorted) (simp_all add: set_Array_sort)
  then show ?case by (simp add: Array_sort_def)
qed

lemma jslt_NaN_right [simp]: "jslt a NaN = False"
  by (cases a) auto

lemma jseq_NaN_right [simp]: "jseq a NaN = False"
  by (cases a) auto

lemma score_at_least_not_NaN: "score_at_least m t \<Longrightarrow> overall (score t) \<noteq> NaN"
  by (cases "overall (score t)") (auto simp: score_at_least_def jsge_def jsle_def)

subsection \<open>The ranker, step by step\<close>

lemma withDefault_case: "withDefault v d = (case v of None \<Rightarrow> d | Some x \<Rightarrow> x)"
  by (cases v) simp_all

lemma combineAndRankTrends_steps:
  "combineAndRankTrends Date_parse now userTrends globalTrends options =
     Array_slice0 (maxResults_in_force options)
       (Array_sort by_overall_desc
         (filter (score_at_least (minScore_in_force options))
           (filter (\<lambda>t. categories_in_force options = [] \<or> in_categories (categories_in_force options) t)
             (filter (within_timeWindow Date_parse now (timeWindow_in_force options))
               (userTrends @ globalTrends)))))"
proof -
  have m: "withDefault (maxResults (withDefault options no_options)) (Num 50)
             = maxResults_in_force options"
    by (cases options) (simp_all add: maxResults_in_force_def no_options_def withDefault_case)
  have s: "withDefault (minScore (withDefault options no_options)) (Num (1 / 10))
             = minScore_in_force options"
    by (cases options) (simp_all add: minScore_in_force_def no_options_def withDefault_case)
  have c: "withDefault (categories (withDefault options no_options)) []
             = categories_in_force options"
    by (cases options) (simp_all add: categories_in_force_def no_options_def withDefault_case)
  have w: "withDefault (timeWindow (withDefault options no_options)) (Num 24)
             = timeWindow_in_force options"
    by (cases options) (simp_all add: timeWindow_in_force_def no_options_def withDefault_case)
  show ?thesis
    unfolding combineAndRankTrends_def Let_def m s c w
    by (cases "categories_in_force options") simp_all
qed

lemma sample_window:
  "within_timeWindow sample_parse sample_now (Num 24) (sample_trend i ''2026-11-01T12:00:00.000Z'' ov cat)"
  "within_timeWindow sample_parse sample_now (Num 24) (sample_trend i ''2026-10-31T12:00:00.000Z'' ov cat)"
  "\<not> within_timeWindow sample_parse sample_now (Num 24) (sample_trend i ''2026-10-30T12:00:00.000Z'' ov cat)"
  "\<not> within_timeWindow sample_parse sample_now (Num 24) (sample_trend i ''not-a-date'' ov cat)"
  by (simp_all add: within_timeWindow_def sample_trend_def sample_parse_def sample_now_def
      ageInHours_of_def jssub_def jsle_def)

lemma sample_fields [simp]:
  "overall (score (sample_trend i ts ov cat)) = Num ov"
  "category (sample_trend i ts ov cat) = cat"
  by (simp_all add: sample_trend_def)

lemma ToIntegerOrInfinity_fin_minus_one: "ToIntegerOrInfinity_fin (- 1) = - 1"
proof -
  have "\<lceil>- 1 :: real\<rceil> = - 1" by (rule ceiling_unique) simp_all
  then show ?thesis by (simp add: ToIntegerOrInfinity_fin_def)
qed

lemma set_combineAndRankTrends:
  "set (combineAndRankTrends Date_parse now userTrends globalTrends options)
     \<subseteq> set userTrends \<union> set globalTrends"
  unfolding combineAndRankTrends_steps
  using set_Array_slice0 [of "maxResults_in_force options"]
  by (fastforce simp: set_Array_sort)

text \<open>
  C1 (as amended). For every pair of candidate lists and every configuration, each
  trend returned by \<open>combineAndRankTrends\<close> has an age of at most \<open>timeWindow\<close>
  hours, has an overall score of at least \<open>minScore\<close> and, when \<open>categories\<close> is
  not empty, has its category in that list; the returned list is sorted by overall
  score, highest first; its length is at most \<open>maxResults\<close> whenever \<open>maxResults\<close>
  is not negative; and the defaults are 50 for \<open>maxResults\<close>, 0.1 for \<open>minScore\<close>,
  24 hours for \<open>timeWindow\<close> and the empty list for \<open>categories\<close>.
\<close>

theorem combineAndRankTrends_result:
  "(\<forall>t \<in> set (combineAndRankTrends Date_parse now userTrends globalTrends options).
       within_timeWindow Date_parse now (timeWindow_in_force options) t
       \<and> score_at_least (minScore_in_force options) t
       \<and> (categories_in_force options \<noteq> [] \<longrightarrow> in_categories (categories_in_force options) t))
   \<and> sorted_wrt overall_desc (combineAndRankTrends Date_parse now userTrends globalTrends options)
   \<and> (jsle (Num 0) (maxResults_in_force options) \<longrightarrow>
        jsle (Num (real (length (combineAndRankTrends Date_parse now userTrends globalTrends options))))
             (maxResults_in_force options))
   \<and> combineAndRankTrends Date_parse now userTrends globalTrends None
       = combineAndRankTrends Date_parse now userTrends globalTrends
           (Some \<lparr> maxResults = Some (Num 50), minScore = Some (Num (1 / 10)),
                   categories = Some [], timeWindow = Some (Num 24) \<rparr>)"
proof -
  let ?flt = "filter (score_at_least (minScore_in_force options))
           (filter (\<lambda>t. categories_in_force options = [] \<or> in_categories (categories_in_force options) t)
             (filter (within_timeWindow Date_parse now (timeWindow_in_force options))
               (userTrends @ globalTrends)))"
  let ?r = "combineAndRankTrends Date_parse now userTrends globalTrends options"
  have r: "?r = Array_slice0 (maxResults_in_force options) (Array_sort by_overall_desc ?flt)"
    by (rule combineAndRankTrends_steps)
  have sub: "set ?r \<subseteq> set ?flt"
    unfolding r using set_Array_slice0 [of "maxResults_in_force options" "Array_sort by_overall_desc ?flt"]
    by (simp add: set_Array_sort)
  have a: "\<forall>t \<in> set ?r.
       within_timeWindow Date_parse now (timeWindow_in_force options) t
       \<and> score_at_least (minScore_in_force options) t
       \<and> (categories_in_force options \<noteq> [] \<longrightarrow> in_categories (categories_in_force options) t)"
    using sub by auto
  have "\<forall>x\<in>set ?flt. overall (score x) \<noteq> NaN"
    by (auto dest: score_at_least_not_NaN)
  then have "sorted_wrt overall_desc (Array_sort by_overall_desc ?flt)"
    by (rule sorted_Array_sort)
  then have b: "sorted_wrt overall_desc ?r"
    unfolding r by (rule sorted_wrt_Array_slice0)
  have c: "jsle (Num 0) (maxResults_in_force options) \<longrightarrow>
        jsle (Num (real (length ?r))) (maxResults_in_force options)"
    unfolding r by (simp add: length_Array_slice0_bound)
  have d: "combineAndRankTrends Date_parse now userTrends globalTrends None
       = combineAndRankTrends Date_parse now userTrends globalTrends
           (Some \<lparr> maxResults = Some (Num 50), minScore = Some (Num (1 / 10)),
                   categories = Some [], timeWindow = Some (Num 24) \<rparr>)"
    by (simp add: combineAndRankTrends_steps maxResults_in_force_def minScore_in_force_def
        categories_in_force_def timeWindow_in_force_def)
  show ?thesis using a b c d by blast
qed

text \<open>The theorem at six candidates, of which two pass every filter and the limit of 2.\<close>

theorem combineAndRankTrends_result_witness:
  "combineAndRankTrends sample_parse sample_now
      [sample_trend ''a'' ''2026-11-01T12:00:00.000Z'' (5 / 10) Technology,
       sample_trend ''b'' ''2026-11-01T12:00:00.000Z'' (5 / 100) Technology,
       sample_trend ''e'' ''2026-10-30T12:00:00.000Z'' (7 / 10) Technology]
      [sample_trend ''c'' ''2026-10-31T12:00:00.000Z'' (9 / 10) Technology,
       sample_trend ''d'' ''2026-11-01T12:00:00.000Z'' (95 / 100) Business,
       sample_trend ''f'' ''2026-11-01T12:00:00.000Z'' (3 / 10) Technology]
      (Some \<lparr> maxResults = Some (Num 2), minScore = None,
              categories = Some [''technology''], timeWindow = None \<rparr>)
    = [sample_trend ''c'' ''2026-10-31T12:00:00.000Z'' (9 / 10) Technology,
       sample_trend ''a'' ''2026-11-01T12:00:00.000Z'' (5 / 10) Technology]
   \<and> within_timeWindow sample_parse sample_now (Num 24)
        (sample_trend ''c'' ''2026-10-31T12:00:00.000Z'' (9 / 10) Technology)
   \<and> score_at_least (Num (1 / 10))
        (sample_trend ''c'' ''2026-10-31T12:00:00.000Z'' (9 / 10) Technology)
   \<and> in_categories [''technology'']
        (sample_trend ''c'' ''2026-10-31T12:00:00.000Z'' (9 / 10) Technology)
   \<and> within_timeWindow sample_parse sample_now (Num 24)
        (sample_trend ''a'' ''2026-11-01T12:00:00.000Z'' (5 / 10) Technology)
   \<and> score_at_least (Num (1 / 10))
        (sample_trend ''a'' ''2026-11-01T12:00:00.000Z'' (5 / 10) Technology)
   \<and> in_categories [''technology'']
        (sample_trend ''a'' ''2026-11-01T12:00:00.000Z'' (5 / 10) Technology)
   \<and> overall_desc (sample_trend ''c'' ''2026-10-31T12:00:00.000Z'' (9 / 10) Technology)
        (sample_trend ''a'' ''2026-11-01T12:00:00.000Z'' (5 / 10) Technology)
   \<and> jsle (Num 0) (Num 2)
   \<and> jsle (Num (real (length
        [sample_trend ''c'' ''2026-10-31T12:00:00.000Z'' (9 / 10) Technology,
         sample_trend ''a'' ''2026-11-01T12:00:00.000Z'' (5 / 10) Technology]))) (Num 2)"
proof -
  let ?o = "Some \<lparr> maxResults = Some (Num 2), minScore = None,
              categories = Some [''technology''], timeWindow = None \<rparr>"
  have f: "maxResults_in_force ?o = Num 2" "minScore_in_force ?o = Num (1 / 10)"
      "categories_in_force ?o = [''technology'']" "timeWindow_in_force ?o = Num 24"
    by (simp_all add: maxResults_in_force_def minScore_in_force_def categories_in_force_def
        timeWindow_in_force_def)
  have ev: "combineAndRankTrends sample_parse sample_now
      [sample_trend ''a'' ''2026-11-01T12:00:00.000Z'' (5 / 10) Technology,
       sample_trend ''b'' ''2026-11-01T12:00:00.000Z'' (5 / 100) Technology,
       sample_trend ''e'' ''2026-10-30T12:00:00.000Z'' (7 / 10) Technology]
      [sample_trend ''c'' ''2026-10-31T12:00:00.000Z'' (9 / 10) Technology,
       sample_trend ''d'' ''2026-11-01T12:00:00.000Z'' (95 / 100) Business,
       sample_trend ''f'' ''2026-11-01T12:00:00.000Z'' (3 / 10) Technology] ?o
    = [sample_trend ''c'' ''2026-10-31T12:00:00.000Z'' (9 / 10) Technology,
       sample_trend ''a'' ''2026-11-01T12:00:00.000Z'' (5 / 10) Technology]"
    by (simp add: combineAndRankTrends_steps f sample_window score_at_least_def
        in_categories_def Array_sort_def SortCompare_def by_overall_desc_def jssub_def jsgt_def
        ToIntegerOrInfinity_fin_def Let_def)
  show ?thesis
    using combineAndRankTrends_result [of sample_parse sample_now
      "[sample_trend ''a'' ''2026-11-01T12:00:00.000Z'' (5 / 10) Technology,
       sample_trend ''b'' ''2026-11-01T12:00:00.000Z'' (5 / 100) Technology,
       sample_trend ''e'' ''2026-10-30T12:00:00.000Z'' (7 / 10) Technology]"
      "[sample_trend ''c'' ''2026-10-31T12:00:00.000Z'' (9 / 10) Technology,
       sample_trend ''d'' ''2026-11-01T12:00:00.000Z'' (95 / 100) Business,
       sample_trend ''f'' ''2026-11-01T12:00:00.000Z'' (3 / 10) Technology]" ?o]
    unfolding ev f by simp
qed

text \<open>
  C1 as stated, for every configuration, fails: \<open>slice(0, -1)\<close> drops the last
  element, so with \<open>maxResults = -1\<close> and two candidates that pass the filters the
  result has one element, which is more than \<open>maxResults\<close>.
\<close>

theorem negative_maxResults_length:
  "combineAndRankTrends sample_parse sample_now
      [sample_trend ''a'' ''2026-11-01T12:00:00.000Z'' (9 / 10) General,
       sample_trend ''b'' ''2026-11-01T12:00:00.000Z'' (8 / 10) General] []
      (Some \<lparr> maxResults = Some (Num (- 1)), minScore = None, categories = None, timeWindow = None \<rparr>)
    = [sample_trend ''a'' ''2026-11-01T12:00:00.000Z'' (9 / 10) General]
   \<and> \<not> jsle (Num (real (length (combineAndRankTrends sample_parse sample_now
      [sample_trend ''a'' ''2026-11-01T12:00:00.000Z'' (9 / 10) General,
       sample_trend ''b'' ''2026-11-01T12:00:00.000Z'' (8 / 10) General] []
      (Some \<lparr> maxResults = Some (Num (- 1)), minScore = None, categories = None, timeWindow = None \<rparr>)))))
        (Num (- 1))"
  by (simp add: combineAndRankTrends_steps maxResults_in_force_def minScore_in_force_def
      categories_in_force_def timeWindow_in_force_def sample_window score_at_least_def
      Array_sort_def SortCompare_def by_overall_desc_def jssub_def jsgt_def
      ToIntegerOrInfinity_fin_minus_one Let_def)

section \<open>The ranker writes to no array it was given\<close>

lemma store_steps:
  assumes "userTrends < length h" and "globalTrends < length h"
  shows "fst (combineAndRankTrends_store Date_parse now userTrends globalTrends options h)
           < length (snd (combineAndRankTrends_store Date_parse now userTrends globalTrends options h))"
    and "length h \<le> fst (combineAndRankTrends_store Date_parse now userTrends globalTrends options h)"
    and "take (length h) (snd (combineAndRankTrends_store Date_parse now userTrends globalTrends options h)) = h"
    and "snd (combineAndRankTrends_store Date_parse now userTrends globalTrends options h)
           ! fst (combineAndRankTrends_store Date_parse now userTrends globalTrends options h)
         = combineAndRankTrends Date_parse now (h ! userTrends) (h ! globalTrends) options"
  using assms
  by (simp_all add: combineAndRankTrends_store_def combineAndRankTrends_def alloc_def
      sort_in_place_def Let_def nth_append split_def)

text \<open>
  C9. \<open>combineAndRankTrends\<close> has no side effect on its inputs: after the call the
  two input arrays, like every array of the store before the call, hold the same
  elements in the same order; the returned reference is a new array; and every
  element of that array is one of the trend records of the two input arrays, as it
  was given: the ranker selects, reorders and truncates.
\<close>

theorem combineAndRankTrends_frame:
  assumes "userTrends < length h" and "globalTrends < length h"
  shows "(case combineAndRankTrends_store Date_parse now userTrends globalTrends options h of
            (r, h') \<Rightarrow>
              h' ! userTrends = h ! userTrends \<and> h' ! globalTrends = h ! globalTrends
              \<and> take (length h) h' = h \<and> length h \<le> r \<and> r < length h'
              \<and> h' ! r = combineAndRankTrends Date_parse now (h ! userTrends) (h ! globalTrends) options
              \<and> set (h' ! r) \<subseteq> set (h ! userTrends) \<union> set (h ! globalTrends))"
proof -
  let ?c = "combineAndRankTrends_store Date_parse now userTrends globalTrends options h"
  note s = store_steps [OF assms, of Date_parse now options]
  have old: "snd ?c ! a = h ! a" if "a < length h" for a
  proof -
    have "take (length h) (snd ?c) ! a = snd ?c ! a" using that by simp
    then show ?thesis using s(3) by simp
  qed
  have "set (snd ?c ! fst ?c) \<subseteq> set (h ! userTrends) \<union> set (h ! globalTrends)"
    unfolding s(4) by (rule set_combineAndRankTrends)
  then show ?thesis
    using s old [OF assms(1)] old [OF assms(2)] by (simp add: split_def)
qed

text \<open>The theorem at a store of two arrays: the sort overwrites the array at index 4,
  which the call itself has created.\<close>

theorem combineAndRankTrends_frame_witness:
  "(0::nat) < length [[sample_trend ''a'' ''2026-11-01T12:00:00.000Z'' (5 / 10) General,
                      sample_trend ''b'' ''2026-11-01T12:00:00.000Z'' (9 / 10) General],
                     [sample_trend ''c'' ''2026-11-01T12:00:00.000Z'' (7 / 10) General]]
   \<and> (1::nat) < length [[sample_trend ''a'' ''2026-11-01T12:00:00.000Z'' (5 / 10) General,
                      sample_trend ''b'' ''2026-11-01T12:00:00.000Z'' (9 / 10) General],
                     [sample_trend ''c'' ''2026-11-01T12:00:00.000Z'' (7 / 10) General]]
   \<and> combineAndRankTrends_store sample_parse sample_now 0 1 None
       [[sample_trend ''a'' ''2026-11-01T12:00:00.000Z'' (5 / 10) General,
         sample_trend ''b'' ''2026-11-01T12:00:00.000Z'' (9 / 10) General],
        [sample_trend ''c'' ''2026-11-01T12:00:00.000Z'' (7 / 10) General]]
     = (5, [[sample_trend ''a'' ''2026-11-01T12:00:00.000Z'' (5 / 10) General,
             sample_trend ''b'' ''2026-11-01T12:00:00.000Z'' (9 / 10) General],
            [sample_trend ''c'' ''2026-11-01T12:00:00.000Z'' (7 / 10) General],
            [sample_trend ''a'' ''2026-11-01T12:00:00.000Z'' (5 / 10) General,
             sample_trend ''b'' ''2026-11-01T12:00:00.000Z'' (9 / 10) General,
             sample_trend ''c'' ''2026-11-01T12:00:00.000Z'' (7 / 10) General],
            [sample_trend ''a'' ''2026-11-01T12:00:00.000Z'' (5 / 10) General,
             sample_trend ''b'' ''2026-11-01T12:00:00.000Z'' (9 / 10) General,
             sample_trend ''c'' ''2026-11-01T12:00:00.000Z'' (7 / 10) General],
            [sample_trend ''b'' ''2026-11-01T12:00:00.000Z'' (9 / 10) General,
             sample_trend ''c'' ''2026-11-01T12:00:00.000Z'' (7 / 10) General,
             sample_trend ''a'' ''2026-11-01T12:00:00.000Z'' (5 / 10) General],
            [sample_trend ''b'' ''2026-11-01T12:00:00.000Z'' (9 / 10) General,
             sample_trend ''c'' ''2026-11-01T12:00:00.000Z'' (7 / 10) General,
             sample_trend ''a'' ''2026-11-01T12:00:00.000Z'' (5 / 10) General]])
   \<and> combineAndRankTrends sample_parse sample_now
        [sample_trend ''a'' ''2026-11-01T12:00:00.000Z'' (5 / 10) General,
         sample_trend ''b'' ''2026-11-01T12:00:00.000Z'' (9 / 10) General]
        [sample_trend ''c'' ''2026-11-01T12:00:00.000Z'' (7 / 10) General] None
     = [sample_trend ''b'' ''2026-11-01T12:00:00.000Z'' (9 / 10) General,
        sample_trend ''c'' ''2026-11-01T12:00:00.000Z'' (7 / 10) General,
        sample_trend ''a'' ''2026-11-01T12:00:00.000Z'' (5 / 10) General]"
proof -
  let ?h = "[[sample_trend ''a'' ''2026-11-01T12:00:00.000Z'' (5 / 10) General,
              sample_trend ''b'' ''2026-11-01T12:00:00.000Z'' (9 / 10) General],
             [sample_trend ''c'' ''2026-11-01T12:00:00.000Z'' (7 / 10) General]]"
  have l0: "(0::nat) < length ?h" and l1: "(1::nat) < length ?h" by simp_all
  have ev: "combineAndRankTrends_store sample_parse sample_now 0 1 None ?h
     = (5, [[sample_trend ''a'' ''2026-11-01T12:00:00.000Z'' (5 / 10) General,
             sample_trend ''b'' ''2026-11-01T12:00:00.000Z'' (9 / 10) General],
            [sample_trend ''c'' ''2026-11-01T12:00:00.000Z'' (7 / 10) General],
            [sample_trend ''a'' ''2026-11-01T12:00:00.000Z'' (5 / 10) General,
             sample_trend ''b'' ''2026-11-01T12:00:00.000Z'' (9 / 10) General,
             sample_trend ''c'' ''2026-11-01T12:00:00.000Z'' (7 / 10) General],
            [sample_trend ''a'' ''2026-11-01T12:00:00.000Z'' (5 / 10) General,
             sample_trend ''b'' ''2026-11-01T12:00:00.000Z'' (9 / 10) General,
             sample_trend ''c'' ''2026-11-01T12:00:00.000Z'' (7 / 10) General],
            [sample_trend ''b'' ''2026-11-01T12:00:00.000Z'' (9 / 10) General,
             sample_trend ''c'' ''2026-11-01T12:00:00.000Z'' (7 / 10) General,
             sample_trend ''a'' ''2026-11-01T12:00:00.000Z'' (5 / 10) General],
            [sample_trend ''b'' ''2026-11-01T12:00:00.000Z'' (9 / 10) General,
             sample_trend ''c'' ''2026-11-01T12:00:00.000Z'' (7 / 10) General,
             sample_trend ''a'' ''2026-11-01T12:00:00.000Z'' (5 / 10) General]])"
    by (simp add: combineAndRankTrends_store_def alloc_def sort_in_place_def no_options_def
        sample_window score_at_least_def Array_sort_def SortCompare_def by_overall_desc_def
        jssub_def jsgt_def ToIntegerOrInfinity_fin_def Let_def)
  show ?thesis
    using combineAndRankTrends_frame [OF l0 l1, of sample_parse sample_now None] l0 l1
    unfolding ev by simp
qed

section \<open>A fresh candidate passes the score filter\<close>

text \<open>
  C10 (as amended). For every candidate whose metrics are each absent, \<open>NaN\<close> or a
  finite number that is not negative, and whose timestamp is valid, the overall
  score is at least 0.4 times the recency; a candidate whose timestamp is the
  current time has an overall score of at least 0.4, so that the score filter of
  \<open>combineAndRankTrends\<close> with the default \<open>minScore\<close> of 0.1 keeps it whatever
  these metrics are: among at most 50 candidates, and with the default options, it
  is in the ranking.
\<close>

theorem fresh_candidate_ranked:
  assumes nn: "nonneg_metrics (metrics tr)"
    and ts: "new_Date_or_now Date_parse now (Some (timestamp tr)) = Some ts"
  shows "jsge (overall (calculateTrendScore Date_parse now (as_partial tr)))
              (jsmul (Num (4 / 10)) (recency (calculateTrendScore Date_parse now (as_partial tr))))
       \<and> (ts = now \<longrightarrow>
            jsge (overall (calculateTrendScore Date_parse now (as_partial tr))) (Num (4 / 10))
            \<and> score_at_least (minScore_in_force None)
                 (tr \<lparr> score := calculateTrendScore Date_parse now (as_partial tr) \<rparr>))
       \<and> (Date_parse (timestamp tr) = Some now
            \<and> score tr = calculateTrendScore Date_parse now (as_partial tr)
            \<and> tr \<in> set userTrends \<union> set globalTrends
            \<and> length userTrends + length globalTrends \<le> 50 \<longrightarrow>
            tr \<in> set (combineAndRankTrends Date_parse now userTrends globalTrends None))"
proof -
  let ?s = "calculateTrendScore Date_parse now (as_partial tr)"
  have nn': "nonneg_metrics (metrics_or_empty (metrics_opt (as_partial tr)))"
    using nn by (simp add: as_partial_def)
  have ts': "new_Date_or_now Date_parse now (timestamp_opt (as_partial tr)) = Some ts"
    using ts by (simp add: as_partial_def)
  obtain r p e where s: "recency ?s = Num r" "popularity ?s = Num p" "engagement ?s = Num e"
      "overall ?s = Num (r * (4 / 10) + p * (4 / 10) + e * (2 / 10))"
    and r: "r = max 0 (min 1 (exp (- ageHours_spec now ts / 24)))"
    and b: "0 \<le> p" "0 \<le> e"
    using score_reals [OF ts' nn'] by blast
  have le: "4 / 10 * r \<le> r * (4 / 10) + p * (4 / 10) + e * (2 / 10)"
    using b by simp
  have fresh: "r = 1" if "ts = now"
    using that r by (simp add: ageHours_spec_def)
  have a: "jsge (overall ?s) (jsmul (Num (4 / 10)) (recency ?s))"
    using s le by simp
  have c: "jsge (overall ?s) (Num (4 / 10))
        \<and> score_at_least (minScore_in_force None) (tr \<lparr> score := ?s \<rparr>)" if "ts = now"
    using s le fresh [OF that] by (simp add: score_at_least_def minScore_in_force_def)
  have d: "tr \<in> set (combineAndRankTrends Date_parse now userTrends globalTrends None)"
    if p: "Date_parse (timestamp tr) = Some now" and sc: "score tr = ?s"
      and mem: "tr \<in> set userTrends \<union> set globalTrends"
      and len: "length userTrends + length globalTrends \<le> 50"
  proof -
    have "ts = now" using ts p by (simp split: if_splits)
    then have "score_at_least (minScore_in_force None) (tr \<lparr> score := ?s \<rparr>)"
      using c by simp
    then have k: "score_at_least (minScore_in_force None) tr"
      using sc by (simp add: score_at_least_def)
    have w: "within_timeWindow Date_parse now (timeWindow_in_force None) tr"
      by (simp add: within_timeWindow_def p ageInHours_of_Some ageHours_spec_def
          timeWindow_in_force_def)
    let ?flt = "filter (score_at_least (minScore_in_force None))
           (filter (\<lambda>t. categories_in_force None = [] \<or> in_categories (categories_in_force None) t)
             (filter (within_timeWindow Date_parse now (timeWindow_in_force None))
               (userTrends @ globalTrends)))"
    have "length ?flt \<le> length (userTrends @ globalTrends)"
      by (meson length_filter_le order_trans)
    then have "real (length (Array_sort by_overall_desc ?flt)) \<le> 50"
      using len by (simp add: length_Array_sort)
    then have "Array_slice0 (Num 50) (Array_sort by_overall_desc ?flt)
        = Array_sort by_overall_desc ?flt"
      by (rule Array_slice0_all)
    moreover have "maxResults_in_force None = Num 50"
      by (simp add: maxResults_in_force_def)
    ultimately have "combineAndRankTrends Date_parse now userTrends globalTrends None
        = Array_sort by_overall_desc ?flt"
      by (simp only: combineAndRankTrends_steps)
    moreover have "tr \<in> set ?flt"
      using k w mem by (simp add: categories_in_force_def)
    ultimately show ?thesis by (simp add: set_Array_sort)
  qed
  show ?thesis using a c d by blast
qed

lemma fresh_sample_instant:
  "new_Date_or_now sample_parse sample_now (Some (timestamp (fresh_sample m sc))) = Some sample_now"
  "sample_parse (timestamp (fresh_sample m sc)) = Some sample_now"
  "new_Date_or_now sample_parse sample_now (timestamp_opt (as_partial (fresh_sample m sc)))
     = Some sample_now"
  "metrics_opt (as_partial (fresh_sample m sc)) = Some m"
  "metrics (fresh_sample m sc) = m"
  "score (fresh_sample m sc) = sc"
  by (simp_all add: fresh_sample_def as_partial_def sample_parse_def sample_now_def)

lemma fresh_scenario_score:
  "calculateTrendScore sample_parse sample_now (as_partial (fresh_sample sample_metrics sc))
     = \<lparr> recency = Num 1, popularity = Num (log 10 6251 / 6), engagement = Num (5 / 100),
         overall = Num (41 / 100 + 4 / 10 * (log 10 6251 / 6)) \<rparr>"
  by (rule TrendScore.equality)
     (simp_all add: scenario_scores [OF fresh_sample_instant(3) fresh_sample_instant(4)])

lemma fresh_infinite_score:
  "calculateTrendScore sample_parse sample_now
     (as_partial (fresh_sample (no_metrics \<lparr> views := Some PInf, comments := Some PInf \<rparr>) sc))
     = \<lparr> recency = Num 1, popularity = Num 1, engagement = NaN, overall = NaN \<rparr>"
  by (simp add: calculateTrendScore_def as_partial_def fresh_sample_def sample_parse_def
      sample_now_def no_metrics_def ageInHours_of_def jssub_def jsgt_def Let_def)

text \<open>The theorem at a fresh candidate with the metrics of the specification's scenario,
  and at one without metrics.\<close>

theorem fresh_candidate_ranked_witness:
  "nonneg_metrics (metrics (fresh_sample sample_metrics
      \<lparr> recency = Num 1, popularity = Num (log 10 6251 / 6), engagement = Num (5 / 100),
        overall = Num (41 / 100 + 4 / 10 * (log 10 6251 / 6)) \<rparr>))
   \<and> new_Date_or_now sample_parse sample_now (Some (timestamp (fresh_sample sample_metrics
      \<lparr> recency = Num 1, popularity = Num (log 10 6251 / 6), engagement = Num (5 / 100),
        overall = Num (41 / 100 + 4 / 10 * (log 10 6251 / 6)) \<rparr>))) = Some sample_now
   \<and> calculateTrendScore sample_parse sample_now (as_partial (fresh_sample sample_metrics
      \<lparr> recency = Num 1, popularity = Num (log 10 6251 / 6), engagement = Num (5 / 100),
        overall = Num (41 / 100 + 4 / 10 * (log 10 6251 / 6)) \<rparr>))
      = \<lparr> recency = Num 1, popularity = Num (log 10 6251 / 6), engagement = Num (5 / 100),
          overall = Num (41 / 100 + 4 / 10 * (log 10 6251 / 6)) \<rparr>
   \<and> jsge (Num (41 / 100 + 4 / 10 * (log 10 6251 / 6))) (jsmul (Num (4 / 10)) (Num 1))
   \<and> jsge (Num (41 / 100 + 4 / 10 * (log 10 6251 / 6))) (Num (4 / 10))
   \<and> fresh_sample sample_metrics
      \<lparr> recency = Num 1, popularity = Num (log 10 6251 / 6), engagement = Num (5 / 100),
        overall = Num (41 / 100 + 4 / 10 * (log 10 6251 / 6)) \<rparr>
      \<in> set (combineAndRankTrends sample_parse sample_now
          [fresh_sample sample_metrics
            \<lparr> recency = Num 1, popularity = Num (log 10 6251 / 6), engagement = Num (5 / 100),
              overall = Num (41 / 100 + 4 / 10 * (log 10 6251 / 6)) \<rparr>] [] None)
   \<and> nonneg_metrics (metrics (fresh_sample no_metrics
      \<lparr> recency = Num 1, popularity = Num 0, engagement = Num 0, overall = Num (4 / 10) \<rparr>))
   \<and> fresh_sample no_metrics
      \<lparr> recency = Num 1, popularity = Num 0, engagement = Num 0, overall = Num (4 / 10) \<rparr>
      \<in> set (combineAndRankTrends sample_parse sample_now
          [fresh_sample no_metrics
            \<lparr> recency = Num 1, popularity = Num 0, engagement = Num 0,
              overall = Num (4 / 10) \<rparr>] [] None)"
proof -
  let ?sc = "\<lparr> recency = Num 1, popularity = Num (log 10 6251 / 6), engagement = Num (5 / 100),
        overall = Num (41 / 100 + 4 / 10 * (log 10 6251 / 6)) \<rparr>"
  let ?tr = "fresh_sample sample_metrics ?sc"
  let ?s0 = "\<lparr> recency = Num 1, popularity = Num 0, engagement = Num 0, overall = Num (4 / 10) \<rparr>"
  let ?t0 = "fresh_sample no_metrics ?s0"
  have h1: "nonneg_metrics (metrics ?tr)"
    by (simp add: fresh_sample_instant sample_metrics_def nonneg_metrics_def)
  have h2: "new_Date_or_now sample_parse sample_now (Some (timestamp ?tr)) = Some sample_now"
    by (rule fresh_sample_instant)
  have h3: "sample_parse (timestamp ?tr) = Some sample_now" by (rule fresh_sample_instant)
  have sc: "calculateTrendScore sample_parse sample_now (as_partial ?tr) = ?sc"
    by (rule fresh_scenario_score)
  have h4: "score ?tr = calculateTrendScore sample_parse sample_now (as_partial ?tr)"
    unfolding sc by (rule fresh_sample_instant)
  have h5: "?tr \<in> set [?tr] \<union> set []" by simp
  have h6: "length [?tr] + length ([] :: RankedTrend list) \<le> 50" by simp
  note t = fresh_candidate_ranked [OF h1 h2, of "[?tr]" "[]"]
  have c1: "jsge (Num (41 / 100 + 4 / 10 * (log 10 6251 / 6))) (jsmul (Num (4 / 10)) (Num 1))"
    using t unfolding sc by simp
  have c2: "jsge (Num (41 / 100 + 4 / 10 * (log 10 6251 / 6))) (Num (4 / 10))"
    using t unfolding sc by simp
  have c3: "?tr \<in> set (combineAndRankTrends sample_parse sample_now [?tr] [] None)"
    using t h3 h4 h5 h6 by blast
  have k1: "nonneg_metrics (metrics ?t0)"
    by (simp add: fresh_sample_instant no_metrics_def nonneg_metrics_def)
  have k2: "new_Date_or_now sample_parse sample_now (Some (timestamp ?t0)) = Some sample_now"
    by (rule fresh_sample_instant)
  have k3: "sample_parse (timestamp ?t0) = Some sample_now" by (rule fresh_sample_instant)
  have s0: "calculateTrendScore sample_parse sample_now (as_partial ?t0) = ?s0"
    by (simp add: calculateTrendScore_def as_partial_def fresh_sample_def sample_parse_def
        sample_now_def no_metrics_def ageInHours_of_def jssub_def jsgt_def Let_def)
  have k4: "score ?t0 = calculateTrendScore sample_parse sample_now (as_partial ?t0)"
    unfolding s0 by (rule fresh_sample_instant)
  have k5: "?t0 \<in> set [?t0] \<union> set []" by simp
  have k6: "length [?t0] + length ([] :: RankedTrend list) \<le> 50" by simp
  have c4: "?t0 \<in> set (combineAndRankTrends sample_parse sample_now [?t0] [] None)"
    using fresh_candidate_ranked [OF k1 k2, of "[?t0]" "[]"] k3 k4 k5 k6 by blast
  show ?thesis using h1 h2 sc c1 c2 c3 k1 c4 by blast
qed

text \<open>
  C10 as stated, for all metrics that are not negative, fails: with infinitely many
  views and comments the engagement is \<open>Infinity / Infinity\<close>, that is \<open>NaN\<close>, and
  so is the overall score; the score filter drops the fresh candidate.
\<close>

theorem infinite_metrics_excluded:
  "jsge PInf (Num 0)
   \<and> new_Date_or_now sample_parse sample_now
        (Some (timestamp (fresh_sample (no_metrics \<lparr> views := Some PInf, comments := Some PInf \<rparr>)
           \<lparr> recency = Num 1, popularity = Num 1, engagement = NaN, overall = NaN \<rparr>)))
      = Some sample_now
   \<and> calculateTrendScore sample_parse sample_now
        (as_partial (fresh_sample (no_metrics \<lparr> views := Some PInf, comments := Some PInf \<rparr>)
           \<lparr> recency = Num 1, popularity = Num 1, engagement = NaN, overall = NaN \<rparr>))
      = \<lparr> recency = Num 1, popularity = Num 1, engagement = NaN, overall = NaN \<rparr>
   \<and> \<not> jsge NaN (jsmul (Num (4 / 10)) (Num 1))
   \<and> \<not> score_at_least (minScore_in_force None)
        (fresh_sample (no_metrics \<lparr> views := Some PInf, comments := Some PInf \<rparr>)
           \<lparr> recency = Num 1, popularity = Num 1, engagement = NaN, overall = NaN \<rparr>)
   \<and> combineAndRankTrends sample_parse sample_now
        [fresh_sample (no_metrics \<lparr> views := Some PInf, comments := Some PInf \<rparr>)
           \<lparr> recency = Num 1, popularity = Num 1, engagement = NaN, overall = NaN \<rparr>] [] None
      = []"
proof -
  have a: "jsge PInf (Num 0)" by (simp add: jsge_def jsle_def)
  have b: "\<not> jsge NaN (jsmul (Num (4 / 10)) (Num 1))" by (simp add: jsge_def jsle_def)
  have c: "\<not> score_at_least (minScore_in_force None)
        (fresh_sample (no_metrics \<lparr> views := Some PInf, comments := Some PInf \<rparr>)
           \<lparr> recency = Num 1, popularity = Num 1, engagement = NaN, overall = NaN \<rparr>)"
    by (simp add: score_at_least_def fresh_sample_instant jsge_def jsle_def)
  then have d: "combineAndRankTrends sample_parse sample_now
        [fresh_sample (no_metrics \<lparr> views := Some PInf, comments := Some PInf \<rparr>)
           \<lparr> recency = Num 1, popularity = Num 1, engagement = NaN, overall = NaN \<rparr>] [] None
      = []"
    by (simp add: combineAndRankTrends_steps Array_sort_def maxResults_in_force_def
        ToIntegerOrInfinity_fin_def)
  show ?thesis
    using a b c d fresh_sample_instant(1) fresh_infinite_score by blast
qed

section \<open>Properties of the video conversion\<close>

lemmas char_class_defs = code_def isDigit_def isUpper_def isLower_def isWordChar_def

lemma parseInt_samples:
  "parseInt ''abc'' = NaN"
  "parseInt ''0'' = Num 0"
  "parseInt ''1500'' = Num 1500"
  "parseInt ''12'' = Num 12"
  by (simp_all add: parseInt_def isStrWhiteSpaceChar_def digitValue_def char_class_defs Let_def)

lemma metrics_convertYouTubeVideo:
  "metrics (convertYouTubeVideo Date_parse toISOString now video) =
     \<lparr> likes = Some (parseInt (str_or (chain (statistics video) likeCount) ''0'')),
       shares = None,
       comments = Some (parseInt (str_or (chain (statistics video) commentCount) ''0'')),
       views = Some (parseInt (str_or (chain (statistics video) viewCount) ''0'')),
       retweets = None \<rparr>"
  by (simp add: convertYouTubeVideo_def Let_def)

text \<open>
  C7, at a counter that is no number. The conversion yields one candidate per video
  and raises nothing, and an absent or empty counter gives the metric 0; but the
  claim has a counter that fails to parse give 0 as well, and the code's
  \<open>parseInt(viewCount || '0')\<close> gives \<open>NaN\<close> for the counter \<open>abc\<close>.
\<close>

theorem malformed_counter_is_NaN:
  "map (\<lambda>t. views (metrics t))
     (convertYouTubeToRankedTrends Date_parse toISOString now
        [sample_video (Some ''abc''), sample_video None, sample_video (Some []),
         sample_video (Some ''1500'')])
   = [Some NaN, Some (Num 0), Some (Num 0), Some (Num 1500)]
   \<and> length (convertYouTubeToRankedTrends Date_parse toISOString now videos) = length videos"
  by (simp add: convertYouTubeToRankedTrends_def metrics_convertYouTubeVideo sample_video_def
      parseInt_samples)

section \<open>Properties of the topic extraction\<close>

subsection \<open>Global matching\<close>





subsection \<open>Lower case\<close>





subsection \<open>The loop over the keywords\<close>





subsection \<open>Removing duplicates\<close>





lemma foldl_seen_distinct:
  "distinct (acc @ xs) \<Longrightarrow>
   foldl (\<lambda>seen x. if x \<in> set seen then seen else seen @ [x]) acc xs = acc @ xs"
  by (induction xs arbitrary: acc) auto

lemma uniq_distinct: "distinct xs \<Longrightarrow> uniq xs = xs"
  using foldl_seen_distinct [of "[]" xs] by (simp add: uniq_def)

















subsection \<open>No entry twice, highest score first\<close>




















end
